theory Spec2Isabelle
  imports Complex_Main "HOL-Library.Sublist"
begin

section \<open>Host language: errors, numbers, strings, property lookup\<close>

text \<open>
  The three services (\<open>performanceService.js\<close>, the building-codes service and
  \<open>exportService.js\<close>) are plain JavaScript. What the language does beyond
  returning a value is written out:
  \<^item> a thrown exception is the \<open>Inl\<close> branch of a sum type;
  \<^item> a field that may be \<open>undefined\<close> is an \<open>option\<close>;
  \<^item> a number of a layout is a real number: a finite double;
  \<^item> the metrics calculator computes with doubles (\<open>jsnum\<close>): every operation
    rounds its exact result, overflows to an infinity, and follows IEEE 754 for
    infinities, \<open>NaN\<close> and the sign of zero;
  \<^item> the compliance engine and the encoders compare the numbers of a layout with the
    constants of the rule tables and print them; their products, sums and quotients
    are kept exact;
  \<^item> a string is a list of 8-bit characters, one per code unit; the arrow of the
    location texts, the only non-ASCII literal of the sources, is written in UTF-8;
  \<^item> what the host supplies (the rounding of doubles, number formatting and parsing,
    the properties of built-in objects, the clock) is the parameter \<open>js_env\<close>.
\<close>

datatype js_error = TypeError | RangeError | Error string

subsection \<open>Doubles\<close>

text \<open>
  \<open>Fin a\<close> is the finite double of value \<open>a\<close> (\<open>Fin 0\<close> is positive zero),
  \<open>NZero\<close> is negative zero, \<open>PInf\<close> and \<open>NInf\<close> are the infinities.
\<close>

datatype jsnum = Fin real | NZero | PInf | NInf | NaN

record js_env =
  fl :: "real \<Rightarrow> jsnum"
  numToString :: "real \<Rightarrow> string"
  parseNumber :: "string \<Rightarrow> real option"
  builtinProp :: "string \<Rightarrow> string \<Rightarrow> bool option"
  isoNow :: string
  localeDate :: string
  blobSize :: "string \<Rightarrow> nat"
  typeErrorMessage :: string
  rangeErrorMessage :: string

text \<open>
  \<open>fl x\<close> is the double that the exact non-zero result \<open>x\<close> of an operation rounds
  to: the nearest double, an infinity when \<open>x\<close> is out of range, a zero when \<open>x\<close>
  is too small.
  \<open>numToString\<close> is the conversion of a number to text, in a template literal and in
  \<open>JSON.stringify\<close>; \<open>parseNumber\<close> reads the text of a JSON number
  (\<open>None\<close> when the text is not one).
  \<open>isoNow\<close> is \<open>new Date().toISOString()\<close> and \<open>localeDate\<close> is
  \<open>new Date().toLocaleDateString()\<close>.
  \<open>builtinProp c k\<close> describes reading property \<open>k\<close> of the built-in value
  \<open>Object.prototype[c]\<close>: \<open>None\<close> when the read throws, otherwise whether the
  value read is truthy.
\<close>

fun signBit :: "jsnum \<Rightarrow> bool" where
  "signBit (Fin a) = (a < 0)"
| "signBit NZero = True"
| "signBit PInf = False"
| "signBit NInf = True"
| "signBit NaN = False"

fun isInfinite :: "jsnum \<Rightarrow> bool" where
  "isInfinite PInf = True"
| "isInfinite NInf = True"
| "isInfinite _ = False"

fun isZero :: "jsnum \<Rightarrow> bool" where
  "isZero (Fin a) = (a = 0)"
| "isZero NZero = True"
| "isZero _ = False"

text \<open>The value of a finite double.\<close>

fun valueOf :: "jsnum \<Rightarrow> real" where
  "valueOf (Fin a) = a"
| "valueOf _ = 0"

definition signedZero :: "bool \<Rightarrow> jsnum" where
  "signedZero negative = (if negative then NZero else Fin 0)"

definition signedInf :: "bool \<Rightarrow> jsnum" where
  "signedInf negative = (if negative then NInf else PInf)"

fun jneg :: "jsnum \<Rightarrow> jsnum" where
  "jneg (Fin a) = (if a = 0 then NZero else Fin (- a))"
| "jneg NZero = Fin 0"
| "jneg PInf = NInf"
| "jneg NInf = PInf"
| "jneg NaN = NaN"

text \<open>
  The four operations and the square root. An exact sum of zero is \<open>+0\<close> unless
  both operands are \<open>-0\<close>; a product or quotient of exact value zero carries the
  exclusive or of the signs; \<open>x - y\<close> is \<open>x + (-y)\<close>.
\<close>

definition jadd :: "(real \<Rightarrow> jsnum) \<Rightarrow> jsnum \<Rightarrow> jsnum \<Rightarrow> jsnum" where
  "jadd rnd x y =
     (if x = NaN \<or> y = NaN then NaN
      else if isInfinite x then (if isInfinite y \<and> x \<noteq> y then NaN else x)
      else if isInfinite y then y
      else if valueOf x + valueOf y \<noteq> 0 then rnd (valueOf x + valueOf y)
      else if x = NZero \<and> y = NZero then NZero
      else Fin 0)"

definition jsub :: "(real \<Rightarrow> jsnum) \<Rightarrow> jsnum \<Rightarrow> jsnum \<Rightarrow> jsnum" where
  "jsub rnd x y = jadd rnd x (jneg y)"

definition jmul :: "(real \<Rightarrow> jsnum) \<Rightarrow> jsnum \<Rightarrow> jsnum \<Rightarrow> jsnum" where
  "jmul rnd x y =
     (if x = NaN \<or> y = NaN then NaN
      else if isInfinite x \<or> isInfinite y
        then (if isZero x \<or> isZero y then NaN else signedInf (signBit x \<noteq> signBit y))
      else if valueOf x * valueOf y \<noteq> 0 then rnd (valueOf x * valueOf y)
      else signedZero (signBit x \<noteq> signBit y))"

definition jdiv :: "(real \<Rightarrow> jsnum) \<Rightarrow> jsnum \<Rightarrow> jsnum \<Rightarrow> jsnum" where
  "jdiv rnd x y =
     (if x = NaN \<or> y = NaN then NaN
      else if isInfinite x
        then (if isInfinite y then NaN else signedInf (signBit x \<noteq> signBit y))
      else if isInfinite y then signedZero (signBit x \<noteq> signBit y)
      else if isZero y
        then (if isZero x then NaN else signedInf (signBit x \<noteq> signBit y))
      else if valueOf x / valueOf y \<noteq> 0 then rnd (valueOf x / valueOf y)
      else signedZero (signBit x \<noteq> signBit y))"

definition jsqrt :: "(real \<Rightarrow> jsnum) \<Rightarrow> jsnum \<Rightarrow> jsnum" where
  "jsqrt rnd x =
     (case x of
        Fin a \<Rightarrow> if a < 0 then NaN else if a = 0 then Fin 0 else rnd (sqrt a)
      | NZero \<Rightarrow> NZero
      | PInf \<Rightarrow> PInf
      | NInf \<Rightarrow> NaN
      | NaN \<Rightarrow> NaN)"

text \<open>\<open>Math.pow(x, 2)\<close> is the rounded square.\<close>

definition jsquare :: "(real \<Rightarrow> jsnum) \<Rightarrow> jsnum \<Rightarrow> jsnum" where
  "jsquare rnd x = jmul rnd x x"

text \<open>
  The comparisons \<open><\<close>, \<open><=\<close> and \<open>===\<close>: false whenever an operand is \<open>NaN\<close>;
  the two zeros are equal.
\<close>

definition jless :: "jsnum \<Rightarrow> jsnum \<Rightarrow> bool" where
  "jless x y =
     (x \<noteq> NaN \<and> y \<noteq> NaN \<and> x \<noteq> PInf \<and> y \<noteq> NInf
      \<and> (x = NInf \<or> y = PInf \<or> valueOf x < valueOf y))"

definition jle :: "jsnum \<Rightarrow> jsnum \<Rightarrow> bool" where
  "jle x y = (x \<noteq> NaN \<and> y \<noteq> NaN \<and> \<not> jless y x)"

definition jeq :: "jsnum \<Rightarrow> jsnum \<Rightarrow> bool" where
  "jeq x y = (x \<noteq> NaN \<and> y \<noteq> NaN \<and> \<not> jless x y \<and> \<not> jless y x)"

text \<open>
  \<open>Math.max\<close> and \<open>Math.min\<close> return \<open>NaN\<close> as soon as an argument is \<open>NaN\<close>,
  and take \<open>+0\<close> to be larger than \<open>-0\<close>.
\<close>

definition jmax :: "jsnum \<Rightarrow> jsnum \<Rightarrow> jsnum" where
  "jmax x y =
     (if x = NaN \<or> y = NaN then NaN
      else if jless x y then y
      else if jless y x then x
      else if x = NZero then y
      else x)"

definition jmin :: "jsnum \<Rightarrow> jsnum \<Rightarrow> jsnum" where
  "jmin x y =
     (if x = NaN \<or> y = NaN then NaN
      else if jless x y then x
      else if jless y x then y
      else if x = NZero then x
      else y)"

text \<open>
  \<open>Math.round\<close> rounds half up, \<open>round x = \<lfloor>x + 1/2\<rfloor>\<close>, and returns \<open>-0\<close> for
  \<open>-0\<close> and for the values from \<open>-0.5\<close> up to zero.
\<close>

definition jround :: "jsnum \<Rightarrow> jsnum" where
  "jround x =
     (case x of
        Fin a \<Rightarrow> if - (1 / 2) \<le> a \<and> a < 0 then NZero else Fin (of_int (round a))
      | _ \<Rightarrow> x)"

definition jsnumToString :: "js_env \<Rightarrow> jsnum \<Rightarrow> string" where
  "jsnumToString env v =
     (case v of Fin a \<Rightarrow> numToString env a | NZero \<Rightarrow> numToString env 0
      | PInf \<Rightarrow> ''Infinity'' | NInf \<Rightarrow> ''-Infinity'' | NaN \<Rightarrow> ''NaN'')"

text \<open>
  What is used of the rounding of doubles (to nearest, ties to even): it yields no
  \<open>NaN\<close>, it is monotone, it keeps the sign, and the multiples of \<open>1/1024\<close> up
  to \<open>2 ^ 20\<close> are doubles.
\<close>

definition roundsToNearest :: "(real \<Rightarrow> jsnum) \<Rightarrow> bool" where
  "roundsToNearest rnd =
     ((\<forall>x. rnd x \<noteq> NaN)
      \<and> (\<forall>x y. x \<le> y \<longrightarrow> jle (rnd x) (rnd y))
      \<and> (\<forall>x. 0 \<le> x \<longrightarrow> \<not> signBit (rnd x))
      \<and> (\<forall>k::int. \<bar>k\<bar> \<le> 2 ^ 30 \<longrightarrow> rnd (of_int k / 1024) = Fin (of_int k / 1024)))"

text \<open>
  \<open>inRange lo hi v\<close>: the double \<open>v\<close> is finite, not \<open>-0\<close>, and lies between
  \<open>lo\<close> and \<open>hi\<close>. \<open>nonNegative v\<close>: \<open>v\<close> is a number whose sign bit is clear.
\<close>

definition inRange :: "real \<Rightarrow> real \<Rightarrow> jsnum \<Rightarrow> bool" where
  "inRange lo hi v = (case v of Fin a \<Rightarrow> lo \<le> a \<and> a \<le> hi | _ \<Rightarrow> False)"

definition nonNegative :: "jsnum \<Rightarrow> bool" where
  "nonNegative v = (v \<noteq> NaN \<and> \<not> signBit v)"

subsection \<open>Strings\<close>

text \<open>
  \<open>String.prototype.toLowerCase\<close> on 8-bit code units: the letters \<open>A\<close> to \<open>Z\<close> and
  the upper-case letters of Latin-1 move up by 32.
\<close>

definition lowerChar :: "char \<Rightarrow> char" where
  "lowerChar c =
     (let n = (of_char c :: nat)
      in if (65 \<le> n \<and> n \<le> 90) \<or> (192 \<le> n \<and> n \<le> 222 \<and> n \<noteq> 215)
         then char_of (n + 32) else c)"

definition toLowerCase :: "string \<Rightarrow> string" where
  "toLowerCase s = map lowerChar s"

text \<open>\<open>s.includes(sub)\<close>: \<open>sub\<close> occurs in \<open>s\<close> as a contiguous block.\<close>

fun str_includes :: "string \<Rightarrow> string \<Rightarrow> bool" where
  "str_includes [] sub = (sub = [])"
| "str_includes (c # cs) sub = (prefix sub (c # cs) \<or> str_includes cs sub)"

definition arrow :: string where
  "arrow = [CHR 0xE2, CHR 0x86, CHR 0x92]"

subsection \<open>Property lookup on an object literal\<close>

text \<open>
  \<open>obj[k]\<close> on an object literal finds the literal's own entries and, failing that,
  the members every object inherits from \<open>Object.prototype\<close>.
\<close>

definition objectPrototypeKeys :: "string list" where
  "objectPrototypeKeys =
     [''constructor'', ''__defineGetter__'', ''__defineSetter__'', ''hasOwnProperty'',
      ''__lookupGetter__'', ''__lookupSetter__'', ''isPrototypeOf'',
      ''propertyIsEnumerable'', ''toString'', ''valueOf'', ''__proto__'',
      ''toLocaleString'']"

datatype 'a property = Undefined | Own 'a | Inherited

definition getProperty :: "(string \<times> 'a) list \<Rightarrow> string \<Rightarrow> 'a property" where
  "getProperty obj k =
     (case map_of obj k of
        Some v \<Rightarrow> Own v
      | None \<Rightarrow> if k \<in> set objectPrototypeKeys then Inherited else Undefined)"

section \<open>Data model\<close>

record room =
  room_id :: string
  room_name :: string
  room_area :: real
  room_x :: real
  room_y :: real
  room_width :: real
  room_height :: real

record path =
  path_from :: string
  path_to :: string
  path_width :: real

text \<open>\<open>None\<close> is a field that is absent from the layout object.\<close>

record layoutData =
  rooms :: "room list option"
  circulation :: "path list option"

text \<open>\<open>rooms.find(r => r.id === id)\<close>.\<close>

definition findRoom :: "room list \<Rightarrow> string \<Rightarrow> room option" where
  "findRoom rs i = find (\<lambda>r. room_id r = i) rs"

section \<open>Compliance rule engine\<close>

subsection \<open>The building-code dataset\<close>

text \<open>
  A rule entry \<open>{ minimum: m, description: ... }\<close> is its \<open>minimum\<close>; \<open>None\<close> is an
  entry the table does not have. The descriptions are never read.
\<close>

record accessibilityRules =
  acc_doorWidth :: "real option"
  acc_corridorWidth :: "real option"
  acc_turningSpace :: "real option"

record ruleSet =
  corridorWidth :: "real option"
  exitWidth :: "real option"
  doorWidth :: "real option"
  roomArea :: "(string \<times> real) list option"
  accessibility :: "accessibilityRules option"
  turningSpace :: "real option"
  reachRanges :: "(real \<times> real) option"
  bedroomArea :: "real option"
  ceilingHeight :: "real option"
  windowArea :: "real option"
  hallwayWidth :: "real option"

record codeTable =
  code_name :: string
  code_version :: string
  rules :: ruleSet

definition noRules :: ruleSet where
  "noRules =
     \<lparr>corridorWidth = None, exitWidth = None, doorWidth = None, roomArea = None,
      accessibility = None, turningSpace = None, reachRanges = None, bedroomArea = None,
      ceilingHeight = None, windowArea = None, hallwayWidth = None\<rparr>"

definition IBC :: codeTable where
  "IBC =
     \<lparr>code_name = ''International Building Code'', code_version = ''2021'',
      rules = noRules
        \<lparr>corridorWidth := Some 44,
         exitWidth := Some 32,
         roomArea := Some [(''office'', 80), (''meeting'', 120), (''restroom'', 30)],
         accessibility := Some
           \<lparr>acc_doorWidth = Some 32, acc_corridorWidth = Some 36,
            acc_turningSpace = Some 60\<rparr>\<rparr>\<rparr>"

definition ADA :: codeTable where
  "ADA =
     \<lparr>code_name = ''Americans with Disabilities Act'', code_version = ''2010'',
      rules = noRules
        \<lparr>corridorWidth := Some 36,
         doorWidth := Some 32,
         turningSpace := Some 60,
         reachRanges := Some (48, 15)\<rparr>\<rparr>"

definition IRC :: codeTable where
  "IRC =
     \<lparr>code_name = ''International Residential Code'', code_version = ''2021'',
      rules = noRules
        \<lparr>bedroomArea := Some 70,
         ceilingHeight := Some 90,
         windowArea := Some (8 / 100),
         hallwayWidth := Some 36\<rparr>\<rparr>"

definition NBC :: codeTable where
  "NBC =
     \<lparr>code_name = ''National Building Code of Canada'', code_version = ''2020'',
      rules = noRules
        \<lparr>corridorWidth := Some 1100,
         exitWidth := Some 850\<rparr>\<rparr>"

definition BUILDING_CODES :: "(string \<times> (string \<times> codeTable) list) list" where
  "BUILDING_CODES =
     [(''US'', [(''IBC'', IBC), (''ADA'', ADA), (''IRC'', IRC)]),
      (''CA'', [(''NBC'', NBC)])]"

subsection \<open>Results\<close>

text \<open>
  An Issue or Warning is a flat object; a field the source does not set is \<open>None\<close>.
\<close>

record issue =
  issue_type :: string
  severity :: string
  message :: string
  code :: string
  location :: "string option"
  required :: "real option"
  actual :: "real option"
  issue_unit :: "string option"
  recommendation :: "string option"

record summary =
  totalChecks :: nat
  passed :: nat
  failed :: nat
  sum_warnings :: nat

record complianceResult =
  status :: string
  issues :: "issue list"
  warnings :: "issue list"
  summary :: summary

record codeSettings =
  country :: "string option"
  codes :: "string list option"
  cs_accessibility :: "bool option"

text \<open>
  An element of \<open>getApplicableCodes\<close>: \<open>{ key: codeKey, ...countryData[codeKey] }\<close>.
  The spread of a rule table copies its name, version and rules; the spread of an
  inherited built-in value copies none of them, which is \<open>table = None\<close>.
\<close>

record codeData =
  key :: string
  table :: "codeTable option"

subsection \<open>Counter and list updates of the results object\<close>

definition countCheck :: "complianceResult \<Rightarrow> complianceResult" where
  "countCheck res = res\<lparr>summary := (summary res)\<lparr>totalChecks := totalChecks (summary res) + 1\<rparr>\<rparr>"

definition countPassed :: "complianceResult \<Rightarrow> complianceResult" where
  "countPassed res = res\<lparr>summary := (summary res)\<lparr>passed := passed (summary res) + 1\<rparr>\<rparr>"

definition countFailed :: "complianceResult \<Rightarrow> complianceResult" where
  "countFailed res = res\<lparr>summary := (summary res)\<lparr>failed := failed (summary res) + 1\<rparr>\<rparr>"

definition countWarning :: "complianceResult \<Rightarrow> complianceResult" where
  "countWarning res =
     res\<lparr>summary := (summary res)\<lparr>sum_warnings := sum_warnings (summary res) + 1\<rparr>\<rparr>"

definition pushIssue :: "issue \<Rightarrow> complianceResult \<Rightarrow> complianceResult" where
  "pushIssue i res = res\<lparr>issues := issues res @ [i]\<rparr>"

definition pushWarning :: "issue \<Rightarrow> complianceResult \<Rightarrow> complianceResult" where
  "pushWarning w res = res\<lparr>warnings := warnings res @ [w]\<rparr>"

subsection \<open>Room-type inference\<close>

definition inferRoomType :: "string \<Rightarrow> string" where
  "inferRoomType roomName =
     (let name = toLowerCase roomName
      in if str_includes name ''office'' then ''office''
         else if str_includes name ''meeting'' \<or> str_includes name ''conference''
           then ''meeting''
         else if str_includes name ''restroom'' \<or> str_includes name ''bathroom''
           then ''restroom''
         else if str_includes name ''bedroom'' then ''bedroom''
         else if str_includes name ''kitchen'' then ''kitchen''
         else if str_includes name ''living'' then ''living''
         else ''general'')"

definition requiresTurningSpace :: "string \<Rightarrow> bool" where
  "requiresTurningSpace roomName =
     (let name = toLowerCase roomName
      in str_includes name ''restroom'' \<or> str_includes name ''bathroom''
         \<or> str_includes name ''office'' \<or> str_includes name ''meeting''
         \<or> str_includes name ''conference'')"

subsection \<open>The checks\<close>

text \<open>
  Each \<open>forEach\<close> body is a function from the results object to the updated
  results object; the loop is a \<open>fold\<close> over the array, paired with the index
  where the body reads it. The object literal that a body pushes is a definition of
  its own.
\<close>

definition corridorIssue :: "js_env \<Rightarrow> string \<Rightarrow> real \<Rightarrow> nat \<times> path \<Rightarrow> issue" where
  \<open>corridorIssue env codeKey minimum ip =
     (let index = fst ip; path = snd ip; pathWidthInches = path_width path * 12
      in \<lparr>issue_type = ''corridor_width'',
          severity = ''critical'',
          message = ''Corridor width '' @ numToString env (path_width path) @ [CHR 0x27]
            @ '' ('' @ numToString env pathWidthInches @ ''") is below minimum ''
            @ numToString env minimum @ ''" required by '' @ codeKey,
          code = codeKey @ ''_CORRIDOR_WIDTH'',
          location = Some (''Path '' @ numToString env (real (index + 1)) @ '': ''
            @ path_from path @ '' '' @ arrow @ '' '' @ path_to path),
          required = Some minimum,
          actual = Some pathWidthInches,
          issue_unit = Some ''inches'',
          recommendation = None\<rparr>)\<close>

definition corridorCheck ::
  "js_env \<Rightarrow> string \<Rightarrow> real \<Rightarrow> nat \<times> path \<Rightarrow> complianceResult \<Rightarrow> complianceResult" where
  "corridorCheck env codeKey minimum ip results =
     (let results = countCheck results;
          pathWidthInches = path_width (snd ip) * 12
      in if pathWidthInches < minimum
         then countFailed (pushIssue (corridorIssue env codeKey minimum ip) results)
         else countPassed results)"

definition roomAreaIssue :: "js_env \<Rightarrow> string \<Rightarrow> real \<Rightarrow> room \<Rightarrow> issue" where
  "roomAreaIssue env codeKey minimum room =
     \<lparr>issue_type = ''room_area'',
      severity = ''critical'',
      message = room_name room @ '' area '' @ numToString env (room_area room)
        @ '' sq ft is below minimum '' @ numToString env minimum
        @ '' sq ft required by '' @ codeKey,
      code = codeKey @ ''_ROOM_AREA'',
      location = Some (room_name room),
      required = Some minimum,
      actual = Some (room_area room),
      issue_unit = Some ''sq ft'',
      recommendation = None\<rparr>"

text \<open>
  \<open>rules.roomArea[roomType]\<close>: the room types are fixed words, none of them a
  member of \<open>Object.prototype\<close>, so the read finds an own entry or nothing.
\<close>

definition roomAreaCheck ::
  "js_env \<Rightarrow> string \<Rightarrow> (string \<times> real) list \<Rightarrow> room \<Rightarrow> complianceResult \<Rightarrow> complianceResult" where
  "roomAreaCheck env codeKey areaRules room results =
     (let roomType = inferRoomType (room_name room)
      in case map_of areaRules roomType of
           None \<Rightarrow> results
         | Some minimum \<Rightarrow>
            (let results = countCheck results
             in if room_area room < minimum
                then countFailed (pushIssue (roomAreaIssue env codeKey minimum room) results)
                else countPassed results))"

definition accessibleRouteIssue :: "js_env \<Rightarrow> string \<Rightarrow> real \<Rightarrow> nat \<times> path \<Rightarrow> issue" where
  \<open>accessibleRouteIssue env codeKey minimum ip =
     (let index = fst ip; path = snd ip; pathWidthInches = path_width path * 12
      in \<lparr>issue_type = ''accessibility_route'',
          severity = ''critical'',
          message = ''Accessible route width '' @ numToString env (path_width path)
            @ [CHR 0x27] @ '' ('' @ numToString env pathWidthInches
            @ ''") is below minimum '' @ numToString env minimum
            @ ''" required by '' @ codeKey,
          code = codeKey @ ''_ACCESSIBLE_ROUTE'',
          location = Some (''Path '' @ numToString env (real (index + 1)) @ '': ''
            @ path_from path @ '' '' @ arrow @ '' '' @ path_to path),
          required = Some minimum,
          actual = Some pathWidthInches,
          issue_unit = Some ''inches'',
          recommendation = None\<rparr>)\<close>

definition accessibleRouteCheck ::
  "js_env \<Rightarrow> string \<Rightarrow> real \<Rightarrow> nat \<times> path \<Rightarrow> complianceResult \<Rightarrow> complianceResult" where
  "accessibleRouteCheck env codeKey minimum ip results =
     (let results = countCheck results;
          pathWidthInches = path_width (snd ip) * 12
      in if pathWidthInches < minimum
         then countFailed (pushIssue (accessibleRouteIssue env codeKey minimum ip) results)
         else countPassed results)"

definition turningSpaceWarning :: "js_env \<Rightarrow> string \<Rightarrow> real \<Rightarrow> room \<Rightarrow> issue" where
  \<open>turningSpaceWarning env codeKey turning room =
     \<lparr>issue_type = ''turning_space'',
      severity = ''warning'',
      message = room_name room @ '' may not have adequate turning space for wheelchairs'',
      code = codeKey @ ''_TURNING_SPACE'',
      location = Some (room_name room),
      required = None,
      actual = None,
      issue_unit = None,
      recommendation = Some (''Ensure '' @ numToString env turning
        @ ''" diameter turning space is available'')\<rparr>\<close>

definition turningSpaceCheck ::
  "js_env \<Rightarrow> string \<Rightarrow> real \<Rightarrow> room \<Rightarrow> complianceResult \<Rightarrow> complianceResult" where
  "turningSpaceCheck env codeKey turning room results =
     (let results = countCheck results;
          minTurningArea = (turning / 12)\<^sup>2
      in if room_area room < minTurningArea \<and> requiresTurningSpace (room_name room)
         then countWarning (pushWarning (turningSpaceWarning env codeKey turning room) results)
         else countPassed results)"

text \<open>A number is truthy when it is not zero.\<close>

definition truthyNum :: "real option \<Rightarrow> real option" where
  "truthyNum v = (case v of None \<Rightarrow> None | Some a \<Rightarrow> if a = 0 then None else Some a)"

definition checkAccessibilityCompliance ::
  "js_env \<Rightarrow> layoutData \<Rightarrow> accessibilityRules \<Rightarrow> string \<Rightarrow> complianceResult
     \<Rightarrow> complianceResult" where
  "checkAccessibilityCompliance env layoutData accessibilityRule codeKey results =
     (let results =
            (case (truthyNum (acc_corridorWidth accessibilityRule), circulation layoutData) of
               (Some minimum, Some paths) \<Rightarrow>
                 fold (accessibleRouteCheck env codeKey minimum) (enumerate 0 paths) results
             | _ \<Rightarrow> results)
      in case (truthyNum (acc_turningSpace accessibilityRule), rooms layoutData) of
           (Some turning, Some rs) \<Rightarrow> fold (turningSpaceCheck env codeKey turning) rs results
         | _ \<Rightarrow> results)"

text \<open>
  \<open>rules.doorWidth?.minimum || rules.exitWidth?.minimum || 32\<close>: the first of the two
  minima that is present and not zero.
\<close>

definition requiredDoorWidth :: "ruleSet \<Rightarrow> real" where
  "requiredDoorWidth rs =
     (case truthyNum (doorWidth rs) of
        Some m \<Rightarrow> m
      | None \<Rightarrow> (case truthyNum (exitWidth rs) of Some m \<Rightarrow> m | None \<Rightarrow> 32))"

definition doorIssue :: "js_env \<Rightarrow> string \<Rightarrow> ruleSet \<Rightarrow> nat \<times> path \<Rightarrow> issue" where
  \<open>doorIssue env codeKey rs ip =
     (let index = fst ip; path = snd ip;
          doorWidthInches = min (path_width path * 12) 36;
          requiredWidth = requiredDoorWidth rs
      in \<lparr>issue_type = ''door_width'',
          severity = ''critical'',
          message = ''Door width '' @ numToString env doorWidthInches
            @ ''" is below minimum '' @ numToString env requiredWidth
            @ ''" required by '' @ codeKey,
          code = codeKey @ ''_DOOR_WIDTH'',
          location = Some (''Door '' @ numToString env (real (index + 1)) @ '': ''
            @ path_from path @ '' '' @ arrow @ '' '' @ path_to path),
          required = Some requiredWidth,
          actual = Some doorWidthInches,
          issue_unit = Some ''inches'',
          recommendation = None\<rparr>)\<close>

definition doorCheck ::
  "js_env \<Rightarrow> string \<Rightarrow> ruleSet \<Rightarrow> nat \<times> path \<Rightarrow> complianceResult \<Rightarrow> complianceResult" where
  "doorCheck env codeKey rs ip results =
     (let results = countCheck results;
          doorWidthInches = min (path_width (snd ip) * 12) 36;
          requiredWidth = requiredDoorWidth rs
      in if doorWidthInches < requiredWidth
         then countFailed (pushIssue (doorIssue env codeKey rs ip) results)
         else countPassed results)"

text \<open>
  \<open>checkDoorWidths\<close> calls \<open>circulation.forEach\<close> without testing
  \<open>circulation\<close>: on a layout without the field the call throws.
\<close>

definition checkDoorWidths ::
  "js_env \<Rightarrow> layoutData \<Rightarrow> ruleSet \<Rightarrow> string \<Rightarrow> complianceResult
     \<Rightarrow> js_error + complianceResult" where
  "checkDoorWidths env layoutData rs codeKey results =
     (case circulation layoutData of
        None \<Rightarrow> Inl TypeError
      | Some paths \<Rightarrow> Inr (fold (doorCheck env codeKey rs) (enumerate 0 paths) results))"

text \<open>
  \<open>runCodeChecks\<close> destructures \<open>rules\<close> from the code data and reads
  \<open>rules.corridorWidth\<close> first: without rules the read throws.
\<close>

definition runCodeChecks ::
  "js_env \<Rightarrow> layoutData \<Rightarrow> codeData \<Rightarrow> complianceResult \<Rightarrow> js_error + complianceResult" where
  "runCodeChecks env layoutData cd results =
     (case table cd of
        None \<Rightarrow> Inl TypeError
      | Some t \<Rightarrow>
         (let rs = rules t; codeKey = key cd;
              results =
                (case (corridorWidth rs, circulation layoutData) of
                   (Some minimum, Some paths) \<Rightarrow>
                     fold (corridorCheck env codeKey minimum) (enumerate 0 paths) results
                 | _ \<Rightarrow> results);
              results =
                (case (roomArea rs, rooms layoutData) of
                   (Some areaRules, Some roomList) \<Rightarrow>
                     fold (roomAreaCheck env codeKey areaRules) roomList results
                 | _ \<Rightarrow> results);
              results =
                (case (accessibility rs, rooms layoutData) of
                   (Some acc, Some _) \<Rightarrow>
                     checkAccessibilityCompliance env layoutData acc codeKey results
                 | _ \<Rightarrow> results)
          in if doorWidth rs \<noteq> None \<or> exitWidth rs \<noteq> None
             then checkDoorWidths env layoutData rs codeKey results
             else Inr results))"

text \<open>The loop \<open>for (const codeData of applicableCodes)\<close>; a throw ends it.\<close>

fun runAllCodeChecks ::
  "js_env \<Rightarrow> layoutData \<Rightarrow> codeData list \<Rightarrow> complianceResult \<Rightarrow> js_error + complianceResult" where
  "runAllCodeChecks env layoutData [] results = Inr results"
| "runAllCodeChecks env layoutData (cd # cds) results =
     (case runCodeChecks env layoutData cd results of
        Inl e \<Rightarrow> Inl e
      | Inr results' \<Rightarrow> runAllCodeChecks env layoutData cds results')"

subsection \<open>Resolving the rule tables\<close>

text \<open>
  \<open>BUILDING_CODES[country]\<close> and \<open>countryData[codeKey]\<close> are property reads: a name
  of \<open>Object.prototype\<close> finds a built-in value, which is truthy. On a country
  object of the dataset such a code key passes the filter and yields code data
  without rules. When the country itself names a built-in value, the code keys are
  read from that value, as \<open>builtinProp\<close> tells.
\<close>

definition getApplicableCodes ::
  "js_env \<Rightarrow> string \<Rightarrow> string list \<Rightarrow> js_error + codeData list" where
  "getApplicableCodes env countryKey codeKeys =
     (case getProperty BUILDING_CODES countryKey of
        Undefined \<Rightarrow> Inr []
      | Own countryData \<Rightarrow>
          Inr (map (\<lambda>codeKey. \<lparr>key = codeKey,
                      table = (case getProperty countryData codeKey of
                                 Own t \<Rightarrow> Some t | _ \<Rightarrow> None)\<rparr>)
                (filter (\<lambda>codeKey. getProperty countryData codeKey \<noteq> Undefined) codeKeys))
      | Inherited \<Rightarrow>
          (if \<exists>codeKey \<in> set codeKeys. builtinProp env countryKey codeKey = None
           then Inl TypeError
           else Inr (map (\<lambda>codeKey. \<lparr>key = codeKey, table = None\<rparr>)
                  (filter (\<lambda>codeKey. builtinProp env countryKey codeKey = Some True)
                     codeKeys))))"

subsection \<open>\<open>checkCompliance\<close>\<close>

definition initialResults :: complianceResult where
  "initialResults =
     \<lparr>status = ''compliant'', issues = [], warnings = [],
      summary = \<lparr>totalChecks = 0, passed = 0, failed = 0, sum_warnings = 0\<rparr>\<rparr>"

definition configIssue :: "string \<Rightarrow> issue" where
  "configIssue countryKey =
     \<lparr>issue_type = ''configuration'',
      severity = ''error'',
      message = ''No building codes found for country: '' @ countryKey,
      code = ''CONFIG_ERROR'',
      location = None, required = None, actual = None, issue_unit = None,
      recommendation = None\<rparr>"

definition determineStatus :: "complianceResult \<Rightarrow> complianceResult" where
  "determineStatus results =
     (if length (issues results) > 0
      then (let criticalIssues = filter (\<lambda>i. severity i = ''critical'') (issues results)
            in results\<lparr>status :=
                 (if length criticalIssues > 0 then ''non-compliant'' else ''warning'')\<rparr>)
      else results)"

definition updateSummary :: "complianceResult \<Rightarrow> complianceResult" where
  "updateSummary results =
     results\<lparr>summary := (summary results)
       \<lparr>totalChecks := passed (summary results) + failed (summary results)
          + sum_warnings (summary results)\<rparr>\<rparr>"

text \<open>
  The destructuring \<open>const { country = 'US', codes = ['IBC', 'ADA'], accessibility = true }\<close>:
  a default replaces an absent field. \<open>accessibility\<close> is not read afterwards.
\<close>

definition countryOf :: "codeSettings \<Rightarrow> string" where
  "countryOf settings = (case country settings of None \<Rightarrow> ''US'' | Some c \<Rightarrow> c)"

definition codesOf :: "codeSettings \<Rightarrow> string list" where
  "codesOf settings = (case codes settings of None \<Rightarrow> [''IBC'', ''ADA''] | Some cs \<Rightarrow> cs)"

definition checkCompliance ::
  "js_env \<Rightarrow> layoutData \<Rightarrow> codeSettings \<Rightarrow> js_error + complianceResult" where
  "checkCompliance env layoutData settings =
     (case getApplicableCodes env (countryOf settings) (codesOf settings) of
        Inl e \<Rightarrow> Inl e
      | Inr applicableCodes \<Rightarrow>
         (if length applicableCodes = 0
          then Inr ((pushIssue (configIssue (countryOf settings)) initialResults)
                      \<lparr>status := ''error''\<rparr>)
          else (case runAllCodeChecks env layoutData applicableCodes initialResults of
                  Inl e \<Rightarrow> Inl e
                | Inr results \<Rightarrow> Inr (updateSummary (determineStatus results)))))"

section \<open>Metrics calculator\<close>

record buildingBounds =
  b_minX :: jsnum
  b_maxX :: jsnum
  b_minY :: jsnum
  b_maxY :: jsnum

text \<open>
  \<open>calculateBuildingBounds\<close>: a \<open>reduce\<close> over all rooms, started from the box
  of the first room.
\<close>

definition extendBuildingBounds :: "js_env \<Rightarrow> room \<Rightarrow> buildingBounds \<Rightarrow> buildingBounds" where
  "extendBuildingBounds env room b =
     \<lparr>b_minX = jmin (b_minX b) (Fin (room_x room)),
      b_maxX = jmax (b_maxX b) (jadd (fl env) (Fin (room_x room)) (Fin (room_width room))),
      b_minY = jmin (b_minY b) (Fin (room_y room)),
      b_maxY = jmax (b_maxY b) (jadd (fl env) (Fin (room_y room)) (Fin (room_height room)))\<rparr>"

definition roomBuildingBox :: "js_env \<Rightarrow> room \<Rightarrow> buildingBounds" where
  "roomBuildingBox env room =
     \<lparr>b_minX = Fin (room_x room),
      b_maxX = jadd (fl env) (Fin (room_x room)) (Fin (room_width room)),
      b_minY = Fin (room_y room),
      b_maxY = jadd (fl env) (Fin (room_y room)) (Fin (room_height room))\<rparr>"

definition calculateBuildingBounds :: "js_env \<Rightarrow> room list option \<Rightarrow> buildingBounds" where
  "calculateBuildingBounds env roomList =
     (case roomList of
        None \<Rightarrow> \<lparr>b_minX = Fin 0, b_maxX = Fin 0, b_minY = Fin 0, b_maxY = Fin 0\<rparr>
      | Some [] \<Rightarrow> \<lparr>b_minX = Fin 0, b_maxX = Fin 0, b_minY = Fin 0, b_maxY = Fin 0\<rparr>
      | Some (r # rs) \<Rightarrow> fold (extendBuildingBounds env) (r # rs) (roomBuildingBox env r))"


text \<open>\<open>rooms.reduce((total, room) => total + room.area, 0)\<close>.\<close>

definition sumOfAreas :: "js_env \<Rightarrow> room list \<Rightarrow> jsnum" where
  "sumOfAreas env roomList =
     fold (\<lambda>room subtotal. jadd (fl env) subtotal (Fin (room_area room))) roomList (Fin 0)"

subsection \<open>Circulation efficiency\<close>

definition circulationStep :: "js_env \<Rightarrow> room list \<Rightarrow> path \<Rightarrow> jsnum \<Rightarrow> jsnum" where
  "circulationStep env roomList path subtotal =
     (case (findRoom roomList (path_from path), findRoom roomList (path_to path)) of
        (Some fromRoom, Some toRoom) \<Rightarrow>
          (let distance = jsqrt (fl env)
                 (jadd (fl env)
                    (jsquare (fl env)
                       (jsub (fl env) (Fin (room_x toRoom)) (Fin (room_x fromRoom))))
                    (jsquare (fl env)
                       (jsub (fl env) (Fin (room_y toRoom)) (Fin (room_y fromRoom)))))
           in jadd (fl env) subtotal (jmul (fl env) distance (Fin (path_width path))))
      | _ \<Rightarrow> subtotal)"

definition calculateCirculationEfficiency :: "js_env \<Rightarrow> layoutData \<Rightarrow> jsnum" where
  "calculateCirculationEfficiency env layoutData =
     (case (rooms layoutData, circulation layoutData) of
        (Some roomList, Some paths) \<Rightarrow>
          (if length roomList = 0 then Fin 0
           else
             (let totalCirculationArea = fold (circulationStep env roomList) paths (Fin 0);
                  totalUsableArea = sumOfAreas env roomList;
                  circulationRatio = jdiv (fl env) totalCirculationArea totalUsableArea;
                  efficiency = jmax (Fin 0)
                    (jmin (Fin 100)
                       (jsub (fl env) (Fin 100) (jmul (fl env) circulationRatio (Fin 50))))
              in jround efficiency))
      | _ \<Rightarrow> Fin 0)"

subsection \<open>Daylight hours\<close>

definition proximity :: "js_env \<Rightarrow> jsnum \<Rightarrow> jsnum \<Rightarrow> jsnum" where
  "proximity env distance dimension =
     jmax (Fin 0) (jsub (fl env) (Fin 1) (jdiv (fl env) distance dimension))"

text \<open>
  The weights \<open>0.3\<close> and \<open>0.7\<close> are the doubles nearest to these decimals; the
  proximity scores are added in the order of the keys: north, south, east, west.
\<close>

definition roomDaylightScore :: "js_env \<Rightarrow> buildingBounds \<Rightarrow> room \<Rightarrow> jsnum" where
  "roomDaylightScore env b room =
     (let buildingWidth = jsub (fl env) (b_maxX b) (b_minX b);
          buildingHeight = jsub (fl env) (b_maxY b) (b_minY b);
          distanceFromNorth = jsub (fl env) (Fin (room_y room)) (b_minY b);
          distanceFromSouth = jsub (fl env) (b_maxY b)
            (jadd (fl env) (Fin (room_y room)) (Fin (room_height room)));
          distanceFromEast = jsub (fl env) (b_maxX b)
            (jadd (fl env) (Fin (room_x room)) (Fin (room_width room)));
          distanceFromWest = jsub (fl env) (Fin (room_x room)) (b_minX b);
          north = proximity env distanceFromNorth buildingHeight;
          south = proximity env distanceFromSouth buildingHeight;
          east = proximity env distanceFromEast buildingWidth;
          west = proximity env distanceFromWest buildingWidth
      in jadd (fl env)
           (jadd (fl env)
              (jadd (fl env)
                 (jadd (fl env) (Fin 0) (jmul (fl env) north (fl env (3 / 10))))
                 (jmul (fl env) south (Fin 1)))
              (jmul (fl env) east (fl env (7 / 10))))
           (jmul (fl env) west (fl env (7 / 10))))"

definition daylightStep :: "js_env \<Rightarrow> buildingBounds \<Rightarrow> room \<Rightarrow> jsnum \<Rightarrow> jsnum" where
  "daylightStep env b room totalDaylightScore =
     jadd (fl env) totalDaylightScore
       (jmul (fl env) (roomDaylightScore env b room)
          (jdiv (fl env) (Fin (room_area room)) (Fin 1000)))"

text \<open>
  The orientation argument is accepted and never read. The number of rooms is an
  integer below \<open>2 ^ 32\<close>, which a double holds exactly.
\<close>

definition calculateDaylightHours :: "js_env \<Rightarrow> layoutData \<Rightarrow> string option \<Rightarrow> jsnum" where
  "calculateDaylightHours env layoutData buildingOrientation =
     (case rooms layoutData of
        None \<Rightarrow> Fin 0
      | Some roomList \<Rightarrow>
          (if length roomList = 0 then Fin 0
           else
             (let b = calculateBuildingBounds env (Some roomList);
                  totalDaylightScore = fold (daylightStep env b) roomList (Fin 0);
                  averageScore = jdiv (fl env) totalDaylightScore
                    (Fin (real (length roomList)));
                  daylightHours = jmax (Fin 3)
                    (jmin (Fin 12)
                       (jadd (fl env) (jmul (fl env) averageScore (Fin 8)) (Fin 4)))
              in jdiv (fl env) (jround (jmul (fl env) daylightHours (Fin 10))) (Fin 10))))"

subsection \<open>Energy efficiency\<close>

definition adjacent :: "js_env \<Rightarrow> room \<Rightarrow> room \<Rightarrow> bool" where
  "adjacent env room1 room2 =
     (let right1 = jadd (fl env) (Fin (room_x room1)) (Fin (room_width room1));
          right2 = jadd (fl env) (Fin (room_x room2)) (Fin (room_width room2));
          bottom1 = jadd (fl env) (Fin (room_y room1)) (Fin (room_height room1));
          bottom2 = jadd (fl env) (Fin (room_y room2)) (Fin (room_height room2));
          horizontallyAdjacent =
            ((jeq right1 (Fin (room_x room2)) \<or> jeq right2 (Fin (room_x room1)))
             \<and> \<not> (jle bottom1 (Fin (room_y room2)) \<or> jle bottom2 (Fin (room_y room1))));
          verticallyAdjacent =
            ((jeq bottom1 (Fin (room_y room2)) \<or> jeq bottom2 (Fin (room_y room1)))
             \<and> \<not> (jle right1 (Fin (room_x room2)) \<or> jle right2 (Fin (room_x room1))))
      in horizontallyAdjacent \<or> verticallyAdjacent)"

text \<open>The pairs \<open>(rooms[i], rooms[j])\<close> with \<open>i < j\<close>, in the order of the two loops.\<close>

fun roomPairs :: "room list \<Rightarrow> (room \<times> room) list" where
  "roomPairs [] = []"
| "roomPairs (r # rs) = map (\<lambda>r'. (r, r')) rs @ roomPairs rs"

text \<open>The two counters are integers below \<open>2 ^ 53\<close>, which doubles hold exactly.\<close>

definition calculateAdjacencyScore :: "js_env \<Rightarrow> room list \<Rightarrow> jsnum" where
  "calculateAdjacencyScore env roomList =
     (let adjacentPairs = length (filter (\<lambda>(room1, room2). adjacent env room1 room2)
                                    (roomPairs roomList));
          totalPossiblePairs = length (roomPairs roomList)
      in if totalPossiblePairs > 0
         then jdiv (fl env) (Fin (real adjacentPairs)) (Fin (real totalPossiblePairs))
         else Fin 0)"

definition calculateEnergyEfficiency :: "js_env \<Rightarrow> layoutData \<Rightarrow> jsnum" where
  "calculateEnergyEfficiency env layoutData =
     (case rooms layoutData of
        None \<Rightarrow> Fin 0
      | Some roomList \<Rightarrow>
          (if length roomList = 0 then Fin 0
           else
             (let b = calculateBuildingBounds env (Some roomList);
                  buildingArea = jmul (fl env) (jsub (fl env) (b_maxX b) (b_minX b))
                                   (jsub (fl env) (b_maxY b) (b_minY b));
                  totalRoomArea = sumOfAreas env roomList;
                  compactness = jdiv (fl env) totalRoomArea buildingArea;
                  perimeter = jmul (fl env) (Fin 2)
                    (jadd (fl env) (jsub (fl env) (b_maxX b) (b_minX b))
                       (jsub (fl env) (b_maxY b) (b_minY b)));
                  perimeterToAreaRatio = jdiv (fl env) perimeter (jsqrt (fl env) buildingArea);
                  adjacencyScore = calculateAdjacencyScore env roomList;
                  compactnessScore = jmin (Fin 100) (jmul (fl env) compactness (Fin 100));
                  perimeterScore = jmax (Fin 0)
                    (jsub (fl env) (Fin 100) (jmul (fl env) perimeterToAreaRatio (Fin 10)));
                  adjacencyEfficiency = jmul (fl env) adjacencyScore (Fin 20);
                  totalEfficiency =
                    jadd (fl env)
                      (jadd (fl env) (jmul (fl env) compactnessScore (fl env (4 / 10)))
                         (jmul (fl env) perimeterScore (fl env (3 / 10))))
                      (jmul (fl env) adjacencyEfficiency (fl env (3 / 10)))
              in jround totalEfficiency)))"

subsection \<open>Space utilization\<close>

definition calculateSpaceUtilization :: "js_env \<Rightarrow> layoutData \<Rightarrow> jsnum" where
  "calculateSpaceUtilization env layoutData =
     (case rooms layoutData of
        None \<Rightarrow> Fin 0
      | Some roomList \<Rightarrow>
          (if length roomList = 0 then Fin 0
           else
             (let b = calculateBuildingBounds env (Some roomList);
                  totalBuildingArea = jmul (fl env) (jsub (fl env) (b_maxX b) (b_minX b))
                                        (jsub (fl env) (b_maxY b) (b_minY b));
                  totalRoomArea = sumOfAreas env roomList;
                  utilization = jmul (fl env) (jdiv (fl env) totalRoomArea totalBuildingArea)
                                  (Fin 100)
              in jround (jmin (Fin 100) utilization))))"

subsection \<open>Accessibility score\<close>

record accessibilitySettings =
  minCorridorWidth :: "real option"
  minDoorWidth :: "real option"

definition hasAdequateAccess :: "path list \<Rightarrow> real \<Rightarrow> room \<Rightarrow> bool" where
  "hasAdequateAccess paths minWidth room =
     list_ex (\<lambda>path. (path_from path = room_id room \<or> path_to path = room_id room)
                      \<and> path_width path \<ge> minWidth) paths"

text \<open>
  The two counters are integers below \<open>2 ^ 53\<close>, and so is their difference:
  doubles hold them exactly.
\<close>

definition calculateAccessibilityScore ::
  "js_env \<Rightarrow> layoutData \<Rightarrow> accessibilitySettings option \<Rightarrow> jsnum" where
  "calculateAccessibilityScore env layoutData settings =
     (let minWidth =
            (case truthyNum (case settings of None \<Rightarrow> None | Some s \<Rightarrow> minCorridorWidth s) of
               None \<Rightarrow> 4 | Some w \<Rightarrow> w)
      in case (rooms layoutData, circulation layoutData) of
           (Some roomList, Some paths) \<Rightarrow>
             (let narrowPaths = length (filter (\<lambda>path. path_width path < minWidth) paths);
                  cutOffRooms =
                    length (filter (\<lambda>room. \<not> hasAdequateAccess paths minWidth room) roomList);
                  accessibilityIssues = narrowPaths + cutOffRooms;
                  totalOfChecks = length paths + length roomList;
                  score = (if totalOfChecks > 0
                           then jmul (fl env)
                                  (jdiv (fl env)
                                     (Fin (real totalOfChecks - real accessibilityIssues))
                                     (Fin (real totalOfChecks)))
                                  (Fin 100)
                           else Fin 100)
              in jround score)
         | _ \<Rightarrow> Fin 0)"

subsection \<open>\<open>calculateAllMetrics\<close> and \<open>generateRecommendations\<close>\<close>

record metricRecommendation =
  rec_type :: string
  priority :: string
  rec_message :: string
  impact :: string

record performanceMetrics =
  circulationEfficiency :: jsnum
  daylightHours :: jsnum
  energyEfficiency :: jsnum
  spaceUtilization :: jsnum
  accessibilityScore :: jsnum
  overallScore :: jsnum
  recommendations :: "metricRecommendation list"

record metricOptions =
  buildingOrientation :: "string option"
  opt_accessibility :: "accessibilitySettings option"

definition recommendationsFor :: "performanceMetrics \<Rightarrow> metricRecommendation list" where
  "recommendationsFor metrics =
     (if jless (circulationEfficiency metrics) (Fin 70) then
        [\<lparr>rec_type = ''circulation'', priority = ''high'',
          rec_message = ''Consider reducing circulation paths or optimizing room adjacencies to improve efficiency.'',
          impact = ''Reduces wasted space and improves flow''\<rparr>] else [])
     @ (if jless (daylightHours metrics) (Fin 6) then
        [\<lparr>rec_type = ''daylight'', priority = ''medium'',
          rec_message = ''Position more rooms near exterior walls to increase natural light exposure.'',
          impact = ''Improves occupant wellbeing and reduces lighting costs''\<rparr>] else [])
     @ (if jless (energyEfficiency metrics) (Fin 60) then
        [\<lparr>rec_type = ''energy'', priority = ''high'',
          rec_message = ''Optimize building shape for better energy performance. Consider more compact design.'',
          impact = ''Reduces heating and cooling costs''\<rparr>] else [])
     @ (if jless (accessibilityScore metrics) (Fin 90) then
        [\<lparr>rec_type = ''accessibility'', priority = ''critical'',
          rec_message = ''Ensure all circulation paths meet minimum width requirements for accessibility.'',
          impact = ''Required for code compliance and universal access''\<rparr>] else [])"

text \<open>
  \<open>calculateAllMetrics\<close> builds its result from the five scores and from
  \<open>generateRecommendations(layoutData)\<close>, and \<open>generateRecommendations\<close> starts by
  calling \<open>calculateAllMetrics(layoutData)\<close>. The first argument is the number of
  frames left on the call stack: a call that finds none left throws \<open>RangeError\<close>
  (maximum call stack size exceeded), as the engine does.
\<close>

fun calculateAllMetrics ::
      "js_env \<Rightarrow> nat \<Rightarrow> layoutData \<Rightarrow> metricOptions option
         \<Rightarrow> js_error + performanceMetrics"
  and generateRecommendations ::
      "js_env \<Rightarrow> nat \<Rightarrow> layoutData \<Rightarrow> js_error + metricRecommendation list" where
  "calculateAllMetrics env 0 layoutData options = Inl RangeError"
| "calculateAllMetrics env (Suc depth) layoutData options =
     (let circ = calculateCirculationEfficiency env layoutData;
          daylight = calculateDaylightHours env layoutData
            (case options of None \<Rightarrow> None | Some opts \<Rightarrow> buildingOrientation opts);
          energy = calculateEnergyEfficiency env layoutData;
          space = calculateSpaceUtilization env layoutData;
          access = calculateAccessibilityScore env layoutData
            (case options of None \<Rightarrow> None | Some opts \<Rightarrow> opt_accessibility opts)
      in case generateRecommendations env depth layoutData of
           Inl e \<Rightarrow> Inl e
         | Inr recs \<Rightarrow>
             Inr \<lparr>circulationEfficiency = circ, daylightHours = daylight,
                  energyEfficiency = energy, spaceUtilization = space,
                  accessibilityScore = access, overallScore = Fin 0,
                  recommendations = recs\<rparr>)"
| "generateRecommendations env 0 layoutData = Inl RangeError"
| "generateRecommendations env (Suc depth) layoutData =
     (case calculateAllMetrics env depth layoutData None of
        Inl e \<Rightarrow> Inl e
      | Inr metrics \<Rightarrow> Inr (recommendationsFor metrics))"

section \<open>Export codec layer\<close>

definition nl :: string where
  "nl = [CHR 0x0A]"

text \<open>
  A template literal is the concatenation of its pieces, line breaks included (\<open>nl\<close>).
  \<open>v || d\<close> on a string that may be absent: the default replaces an absent and an
  empty string.
\<close>

definition orElse :: "string option \<Rightarrow> string \<Rightarrow> string" where
  "orElse v d = (case v of None \<Rightarrow> d | Some s \<Rightarrow> if s = [] then d else s)"

subsection \<open>Bounds and total area of the export service\<close>

record bounds =
  minX :: real
  maxX :: real
  minY :: real
  maxY :: real

definition extendBounds :: "room \<Rightarrow> bounds \<Rightarrow> bounds" where
  "extendBounds room b =
     \<lparr>minX = min (minX b) (room_x room),
      maxX = max (maxX b) (room_x room + room_width room),
      minY = min (minY b) (room_y room),
      maxY = max (maxY b) (room_y room + room_height room)\<rparr>"

definition roomBox :: "room \<Rightarrow> bounds" where
  "roomBox room =
     \<lparr>minX = room_x room, maxX = room_x room + room_width room,
      minY = room_y room, maxY = room_y room + room_height room\<rparr>"

definition totalArea :: "room list \<Rightarrow> real" where
  "totalArea roomList = fold (\<lambda>room subtotal. subtotal + room_area room) roomList 0"

definition calculateBounds :: "room list option \<Rightarrow> bounds" where
  "calculateBounds roomList =
     (case roomList of
        None \<Rightarrow> \<lparr>minX = 0, maxX = 100, minY = 0, maxY = 100\<rparr>
      | Some [] \<Rightarrow> \<lparr>minX = 0, maxX = 100, minY = 0, maxY = 100\<rparr>
      | Some (r # rs) \<Rightarrow> fold extendBounds (r # rs) (roomBox r))"

definition calculateTotalArea :: "room list option \<Rightarrow> real" where
  "calculateTotalArea roomList =
     (case roomList of None \<Rightarrow> 0 | Some rs \<Rightarrow> totalArea rs)"

subsection \<open>DXF\<close>

record dxfOptions =
  units :: "string option"
  dxf_scale :: "real option"
  dxf_includeText :: "bool option"
  includeDimensions :: "bool option"

definition dxfHeader :: string where
  \<open>dxfHeader =
     concat
       [''0'', nl, ''SECTION'', nl, ''2'', nl, ''HEADER'', nl, ''9'', nl, ''$ACADVER'',
        nl, ''1'', nl, ''AC1015'', nl, ''9'', nl, ''$INSUNITS'', nl, ''70'', nl, ''1'',
        nl, ''0'', nl, ''ENDSEC'', nl, ''0'', nl, ''SECTION'', nl, ''2'', nl, ''TABLES'',
        nl, ''0'', nl, ''TABLE'', nl, ''2'', nl, ''LAYER'', nl, ''70'', nl, ''2'', nl,
        ''0'', nl, ''LAYER'', nl, ''2'', nl, ''ROOMS'', nl, ''70'', nl, ''0'', nl,
        ''62'', nl, ''1'', nl, ''6'', nl, ''CONTINUOUS'', nl, ''0'', nl, ''LAYER'', nl,
        ''2'', nl, ''CIRCULATION'', nl, ''70'', nl, ''0'', nl, ''62'', nl, ''2'', nl,
        ''6'', nl, ''CONTINUOUS'', nl, ''0'', nl, ''LAYER'', nl, ''2'', nl, ''TEXT'', nl,
        ''70'', nl, ''0'', nl, ''62'', nl, ''7'', nl, ''6'', nl, ''CONTINUOUS'', nl,
        ''0'', nl, ''ENDTAB'', nl, ''0'', nl, ''ENDSEC'', nl, ''0'', nl, ''SECTION'', nl,
        ''2'', nl, ''ENTITIES'', nl]\<close>

definition dxfRoom :: "js_env \<Rightarrow> real \<Rightarrow> bool \<Rightarrow> room \<Rightarrow> string" where
  \<open>dxfRoom env scale includeText room =
     (let x = room_x room * scale;
          y = room_y room * scale;
          width = room_width room * scale;
          height = room_height room * scale
      in concat
          [''0'', nl, ''LWPOLYLINE'', nl, ''8'', nl, ''ROOMS'', nl, ''90'', nl, ''5'',
           nl, ''70'', nl, ''1'', nl, ''10'', nl, numToString env x, nl, ''20'', nl,
           numToString env y, nl, ''10'', nl, numToString env (x + width), nl, ''20'',
           nl, numToString env y, nl, ''10'', nl, numToString env (x + width), nl,
           ''20'', nl, numToString env (y + height), nl, ''10'', nl, numToString env x,
           nl, ''20'', nl, numToString env (y + height), nl, ''10'', nl,
           numToString env x, nl, ''20'', nl, numToString env y, nl]
       @ (if includeText then
          concat
          [''0'', nl, ''TEXT'', nl, ''8'', nl, ''TEXT'', nl, ''10'', nl,
           numToString env (x + width / 2), nl, ''20'', nl,
           numToString env (y + height / 2), nl, ''40'', nl, ''12'', nl, ''1'', nl,
           room_name room, nl, ''50'', nl, ''0'', nl, ''7'', nl, ''STANDARD'', nl]
          else []))\<close>

definition dxfPath :: "js_env \<Rightarrow> real \<Rightarrow> room list \<Rightarrow> path \<Rightarrow> string" where
  \<open>dxfPath env scale roomList path =
     (case (findRoom roomList (path_from path), findRoom roomList (path_to path)) of
        (Some fromRoom, Some toRoom) \<Rightarrow>
          (let x1 = (room_x fromRoom + room_width fromRoom / 2) * scale;
               y1 = (room_y fromRoom + room_height fromRoom / 2) * scale;
               x2 = (room_x toRoom + room_width toRoom / 2) * scale;
               y2 = (room_y toRoom + room_height toRoom / 2) * scale
           in concat
             [''0'', nl, ''LINE'', nl, ''8'', nl, ''CIRCULATION'', nl, ''10'', nl,
              numToString env x1, nl, ''20'', nl, numToString env y1, nl, ''11'', nl,
              numToString env x2, nl, ''21'', nl, numToString env y2, nl])
      | _ \<Rightarrow> [])\<close>

definition dxfFooter :: string where
  \<open>dxfFooter =
     concat
       [''0'', nl, ''ENDSEC'', nl, ''0'', nl, ''EOF'']\<close>

text \<open>
  \<open>rooms.forEach\<close> and \<open>circulation.forEach\<close> are called on the fields as they
  are: an absent field throws. Each loop appends the text of one element after the
  other, which is \<open>concat (map f xs)\<close>; a path with an unresolved endpoint appends
  nothing.
\<close>

definition exportToDXF :: "js_env \<Rightarrow> layoutData \<Rightarrow> dxfOptions option \<Rightarrow> js_error + string" where
  "exportToDXF env layoutData options =
     (let scale = (case options of None \<Rightarrow> 1
                   | Some opts \<Rightarrow> (case dxf_scale opts of None \<Rightarrow> 1 | Some s \<Rightarrow> s));
          includeText = (case options of None \<Rightarrow> True
                   | Some opts \<Rightarrow> (case dxf_includeText opts of None \<Rightarrow> True | Some t \<Rightarrow> t))
      in case rooms layoutData of
           None \<Rightarrow> Inl TypeError
         | Some roomList \<Rightarrow>
            (let dxf = dxfHeader @ concat (map (dxfRoom env scale includeText) roomList)
             in case circulation layoutData of
                  None \<Rightarrow> Inl TypeError
                | Some paths \<Rightarrow>
                    Inr (dxf @ concat (map (dxfPath env scale roomList) paths) @ dxfFooter)))"

subsection \<open>SVG\<close>

record svgOptions =
  svg_width :: "real option"
  svg_height :: "real option"
  svg_scale :: "real option"
  svg_includeText :: "bool option"
  backgroundColor :: "string option"
  roomColor :: "string option"
  roomStroke :: "string option"
  circulationColor :: "string option"

definition noSvgOptions :: svgOptions where
  "noSvgOptions =
     \<lparr>svg_width = None, svg_height = None, svg_scale = None, svg_includeText = None,
      backgroundColor = None, roomColor = None, roomStroke = None,
      circulationColor = None\<rparr>"

definition svgHeader :: "js_env \<Rightarrow> svgOptions \<Rightarrow> bounds \<Rightarrow> string" where
  \<open>svgHeader env opts b =
     (let width = (case svg_width opts of None \<Rightarrow> 800 | Some w \<Rightarrow> w);
          height = (case svg_height opts of None \<Rightarrow> 600 | Some h \<Rightarrow> h);
          scale = (case svg_scale opts of None \<Rightarrow> 1 | Some s \<Rightarrow> s);
          backgroundColor = (case backgroundColor opts of None \<Rightarrow> ''#ffffff'' | Some c \<Rightarrow> c);
          roomColor = (case roomColor opts of None \<Rightarrow> ''#e5e7eb'' | Some c \<Rightarrow> c);
          roomStroke = (case roomStroke opts of None \<Rightarrow> ''#374151'' | Some c \<Rightarrow> c);
          circulationColor =
            (case circulationColor opts of None \<Rightarrow> ''#3b82f6'' | Some c \<Rightarrow> c);
          viewBox =
        concat
          [numToString env (minX b * scale), '' '', numToString env (minY b * scale),
           '' '', numToString env ((maxX b - minX b) * scale), '' '',
           numToString env ((maxY b - minY b) * scale)]
      in
        concat
          [''<?xml version="1.0" encoding="UTF-8"?>'', nl, ''<svg width="'',
           numToString env width, ''" height="'', numToString env height,
           ''" viewBox="'', viewBox, ''" xmlns="http://www.w3.org/2000/svg">'', nl,
           ''  <defs>'', nl, ''    <style>'', nl, ''      .room { fill: '', roomColor,
           ''; stroke: '', roomStroke, ''; stroke-width: 2; }'', nl,
           ''      .room-text { font-family: Arial, sans-serif; font-size: 14px; text-anchor: middle; dominant-baseline: middle; }'',
           nl, ''      .circulation { stroke: '', circulationColor,
           ''; stroke-width: 3; }'', nl, ''    </style>'', nl, ''  </defs>'', nl,
           ''  <rect width="100%" height="100%" fill="'', backgroundColor, ''"/>'', nl])\<close>

definition svgRoom :: "js_env \<Rightarrow> real \<Rightarrow> bool \<Rightarrow> room \<Rightarrow> string" where
  \<open>svgRoom env scale includeText room =
     (let x = room_x room * scale;
          y = room_y room * scale;
          width = room_width room * scale;
          height = room_height room * scale
      in
        concat
          [''  <rect x="'', numToString env x, ''" y="'', numToString env y,
           ''" width="'', numToString env width, ''" height="'', numToString env height,
           ''" class="room"/>'', nl]
       @ (if includeText then
        concat
          [''  <text x="'', numToString env (x + width / 2), ''" y="'',
           numToString env (y + height / 2), ''" class="room-text">'', room_name room,
           ''</text>'', nl]
          else []))\<close>

definition svgPath :: "js_env \<Rightarrow> real \<Rightarrow> room list \<Rightarrow> path \<Rightarrow> string" where
  \<open>svgPath env scale roomList path =
     (case (findRoom roomList (path_from path), findRoom roomList (path_to path)) of
        (Some fromRoom, Some toRoom) \<Rightarrow>
          (let x1 = (room_x fromRoom + room_width fromRoom / 2) * scale;
               y1 = (room_y fromRoom + room_height fromRoom / 2) * scale;
               x2 = (room_x toRoom + room_width toRoom / 2) * scale;
               y2 = (room_y toRoom + room_height toRoom / 2) * scale
           in
           concat
             [''  <line x1="'', numToString env x1, ''" y1="'', numToString env y1,
              ''" x2="'', numToString env x2, ''" y2="'', numToString env y2,
              ''" class="circulation"/>'', nl])
      | _ \<Rightarrow> [])\<close>

definition exportToSVG :: "js_env \<Rightarrow> layoutData \<Rightarrow> svgOptions option \<Rightarrow> js_error + string" where
  "exportToSVG env layoutData options =
     (let opts = (case options of None \<Rightarrow> noSvgOptions | Some o' \<Rightarrow> o');
          scale = (case svg_scale opts of None \<Rightarrow> 1 | Some s \<Rightarrow> s);
          includeText = (case svg_includeText opts of None \<Rightarrow> True | Some t \<Rightarrow> t);
          b = calculateBounds (rooms layoutData);
          svg = svgHeader env opts b
      in case rooms layoutData of
           None \<Rightarrow> Inl TypeError
         | Some roomList \<Rightarrow>
            (let svg = svg @ concat (map (svgRoom env scale includeText) roomList)
             in case circulation layoutData of
                  None \<Rightarrow> Inl TypeError
                | Some paths \<Rightarrow>
                    Inr (svg @ concat (map (svgPath env scale roomList) paths) @ ''</svg>'')))"

subsection \<open>PDF surrogate\<close>

record complianceInfo =
  ci_status :: string
  complianceRate :: "real option"

record projectInfo =
  name :: "string option"
  layoutName :: "string option"
  metrics :: "performanceMetrics option"
  compliance :: "complianceInfo option"

definition noProjectInfo :: projectInfo where
  "noProjectInfo = \<lparr>name = None, layoutName = None, metrics = None, compliance = None\<rparr>"

record pdfOptions =
  includeMetrics :: "bool option"
  includeCompliance :: "bool option"
  includeRecommendations :: "bool option"

definition pdfHead :: "js_env \<Rightarrow> layoutData \<Rightarrow> projectInfo \<Rightarrow> string \<Rightarrow> string" where
  \<open>pdfHead env layoutData info svg =
           concat
             [''<!DOCTYPE html>'', nl, ''<html>'', nl, ''<head>'', nl,
              ''    <meta charset="UTF-8">'', nl,
              ''    <title>ArchFlow AI - Layout Export</title>'', nl, ''    <style>'',
              nl, ''        body { font-family: Arial, sans-serif; margin: 20px; }'', nl,
              ''        .header { text-align: center; margin-bottom: 30px; }'', nl,
              ''        .project-info { margin-bottom: 20px; }'', nl,
              ''        .layout-container { text-align: center; margin: 20px 0; }'', nl,
              ''        .metrics { display: grid; grid-template-columns: repeat(auto-fit, minmax(200px, 1fr)); gap: 15px; margin: 20px 0; }'',
              nl,
              ''        .metric-card { border: 1px solid #ddd; padding: 15px; border-radius: 8px; }'',
              nl,
              ''        .metric-value { font-size: 24px; font-weight: bold; color: #3b82f6; }'',
              nl, ''        .metric-label { font-size: 14px; color: #666; }'', nl,
              ''        .section { margin: 20px 0; }'', nl,
              ''        .section h3 { color: #374151; border-bottom: 2px solid #e5e7eb; padding-bottom: 5px; }'',
              nl, ''        @media print { body { margin: 0; } }'', nl, ''    </style>'',
              nl, ''</head>'', nl, ''<body>'', nl, ''    <div class="header">'', nl,
              ''        <h1>ArchFlow AI Layout Report</h1>'', nl,
              ''        <p>Generated on '', localeDate env, ''</p>'', nl, ''    </div>'',
              nl, nl, ''    <div class="project-info">'', nl,
              ''        <h2>Project Information</h2>'', nl,
              ''        <p><strong>Project Name:</strong> '',
              orElse (name info) ''Untitled Project'', ''</p>'', nl,
              ''        <p><strong>Layout Name:</strong> '',
              orElse (layoutName info) ''Layout'', ''</p>'', nl,
              ''        <p><strong>Total Area:</strong> '',
              numToString env (calculateTotalArea (rooms layoutData)), '' sq ft</p>'',
              nl, ''        <p><strong>Number of Rooms:</strong> '',
              numToString env (case rooms layoutData of None \<Rightarrow> 0 | Some rs \<Rightarrow> real (length rs)),
              ''</p>'', nl, ''    </div>'', nl, nl,
              ''    <div class="layout-container">'', nl,
              ''        <h3>Floor Plan</h3>'', nl, ''        '', svg, nl, ''    </div>'',
              nl]\<close>

definition pdfMetrics :: "js_env \<Rightarrow> performanceMetrics \<Rightarrow> string" where
  \<open>pdfMetrics env m =
              concat
                [nl, ''    <div class="section">'', nl,
                 ''        <h3>Performance Metrics</h3>'', nl,
                 ''        <div class="metrics">'', nl,
                 ''            <div class="metric-card">'', nl,
                 ''                <div class="metric-value">'',
                 jsnumToString env (circulationEfficiency m), ''%</div>'', nl,
                 ''                <div class="metric-label">Circulation Efficiency</div>'',
                 nl, ''            </div>'', nl,
                 ''            <div class="metric-card">'', nl,
                 ''                <div class="metric-value">'',
                 jsnumToString env (daylightHours m), ''h</div>'', nl,
                 ''                <div class="metric-label">Daylight Hours</div>'', nl,
                 ''            </div>'', nl, ''            <div class="metric-card">'',
                 nl, ''                <div class="metric-value">'',
                 jsnumToString env (energyEfficiency m), ''%</div>'', nl,
                 ''                <div class="metric-label">Energy Efficiency</div>'',
                 nl, ''            </div>'', nl, ''        </div>'', nl, ''    </div>'']\<close>

definition pdfCompliance :: "js_env \<Rightarrow> complianceInfo \<Rightarrow> string" where
  \<open>pdfCompliance env c =
              concat
                [nl, ''    <div class="section">'', nl,
                 ''        <h3>Code Compliance</h3>'', nl,
                 ''        <p><strong>Status:</strong> '', ci_status c, ''</p>'', nl,
                 ''        <p><strong>Compliance Rate:</strong> '',
                 (case truthyNum (complianceRate c) of None \<Rightarrow> ''N/A'' | Some rate \<Rightarrow> numToString env rate),
                 ''%</p>'', nl, ''    </div>'']\<close>

definition pdfFoot :: string where
  \<open>pdfFoot =
           concat
             [nl, ''</body>'', nl, ''</html>'']\<close>

definition exportToPDF ::
  "js_env \<Rightarrow> layoutData \<Rightarrow> projectInfo option \<Rightarrow> pdfOptions option \<Rightarrow> js_error + string" where
  "exportToPDF env layoutData projectInfo options =
     (let info = (case projectInfo of None \<Rightarrow> noProjectInfo | Some i \<Rightarrow> i);
          withMetrics = (case options of None \<Rightarrow> True
                   | Some opts \<Rightarrow> (case includeMetrics opts of None \<Rightarrow> True | Some t \<Rightarrow> t));
          withCompliance = (case options of None \<Rightarrow> True
                   | Some opts \<Rightarrow> (case includeCompliance opts of None \<Rightarrow> True | Some t \<Rightarrow> t))
      in case exportToSVG env layoutData
                (Some (noSvgOptions\<lparr>svg_width := Some 600, svg_height := Some 400,
                         backgroundColor := Some ''#ffffff''\<rparr>)) of
           Inl e \<Rightarrow> Inl e
         | Inr svg \<Rightarrow>
             Inr (pdfHead env layoutData info svg
                  @ (case metrics info of
                       Some m \<Rightarrow> if withMetrics then pdfMetrics env m else []
                     | None \<Rightarrow> [])
                  @ (case compliance info of
                       Some c \<Rightarrow> if withCompliance then pdfCompliance env c else []
                     | None \<Rightarrow> [])
                  @ pdfFoot))"

subsection \<open>JSON\<close>

text \<open>
  The envelope that \<open>exportToJSON\<close> hands to \<open>JSON.stringify(exportData, null, 2)\<close>.
  \<open>metadata = None\<close> is the empty object \<open>{}\<close> that replaces an absent argument.
  \<open>JSON.stringify\<close> is the parameter \<open>stringify\<close>, so that the envelope can carry
  values of any type; the built-in itself follows.
\<close>

record ('m, 'l) exportData =
  version :: string
  exportedAt :: string
  metadata :: "'m option"
  layout :: 'l

definition exportToJSON ::
  "(('m, 'l) exportData \<Rightarrow> string) \<Rightarrow> js_env \<Rightarrow> 'l \<Rightarrow> 'm option \<Rightarrow> string" where
  "exportToJSON stringify env layoutData meta =
     (let exportData =
            \<lparr>version = ''1.0'', exportedAt = isoNow env, metadata = meta, layout = layoutData\<rparr>
      in stringify exportData)"

subsection \<open>\<open>JSON.stringify\<close> and \<open>JSON.parse\<close>\<close>

text \<open>
  The values that JSON represents: \<open>null\<close>, the booleans, the finite numbers, strings,
  arrays, and objects. An object is the list of its own properties in the order in
  which the engine enumerates them.
\<close>

datatype json =
  JNull
| JBool bool
| JNumber real
| JString string
| JArray "json list"
| JObject "(string \<times> json) list"

definition quoteMark :: char where
  "quoteMark = CHR 0x22"

definition backslash :: char where
  "backslash = CHR 0x5C"

text \<open>
  \<open>QuoteJSONString\<close>: the quote, the backslash and five control characters have a
  two-character escape, every other character below \<open>0x20\<close> is written
  \<open>\u00XX\<close> with lower-case hexadecimal digits, and all other characters stand
  for themselves.
\<close>

definition hexDigit :: "nat \<Rightarrow> char" where
  "hexDigit n = ''0123456789abcdef'' ! n"

definition unicodeEscape :: "char \<Rightarrow> string" where
  "unicodeEscape c =
     [backslash, CHR ''u'', CHR ''0'', CHR ''0'',
      hexDigit (of_char c div 16), hexDigit (of_char c mod 16)]"

definition quoteChar :: "char \<Rightarrow> string" where
  "quoteChar c =
     (if c = CHR 0x08 then [backslash, CHR ''b'']
      else if c = CHR 0x09 then [backslash, CHR ''t'']
      else if c = CHR 0x0A then [backslash, CHR ''n'']
      else if c = CHR 0x0C then [backslash, CHR ''f'']
      else if c = CHR 0x0D then [backslash, CHR ''r'']
      else if c = quoteMark then [backslash, quoteMark]
      else if c = backslash then [backslash, backslash]
      else if of_char c < (32 :: nat) then unicodeEscape c
      else [c])"

definition quoteJSONString :: "string \<Rightarrow> string" where
  "quoteJSONString s = quoteMark # concat (map quoteChar s) @ [quoteMark]"

text \<open>\<open>xs.join(separator)\<close>.\<close>

fun joinWith :: "string \<Rightarrow> string list \<Rightarrow> string" where
  "joinWith separator [] = []"
| "joinWith separator [s] = s"
| "joinWith separator (s # t # ss) = s @ separator @ joinWith separator (t # ss)"

text \<open>
  \<open>SerializeJSONProperty\<close> with a gap of two spaces, as in
  \<open>JSON.stringify(value, null, 2)\<close>: the elements of a non-empty array and the
  properties of a non-empty object stand on lines of their own, indented by the gap,
  and a property is its quoted key, a colon, a space and its value. The first
  argument is the conversion of a number to text.
\<close>

fun serializeJSONProperty :: "(real \<Rightarrow> string) \<Rightarrow> string \<Rightarrow> json \<Rightarrow> string" where
  "serializeJSONProperty num indent JNull = ''null''"
| "serializeJSONProperty num indent (JBool b) = (if b then ''true'' else ''false'')"
| "serializeJSONProperty num indent (JNumber x) = num x"
| "serializeJSONProperty num indent (JString s) = quoteJSONString s"
| "serializeJSONProperty num indent (JArray elements) =
     (if elements = [] then ''[]''
      else ''['' @ nl @ (indent @ ''  '')
           @ joinWith ('','' @ nl @ (indent @ ''  ''))
               (map (serializeJSONProperty num (indent @ ''  '')) elements)
           @ nl @ indent @ '']'')"
| "serializeJSONProperty num indent (JObject properties) =
     (if properties = [] then ''{}''
      else ''{'' @ nl @ (indent @ ''  '')
           @ joinWith ('','' @ nl @ (indent @ ''  ''))
               (map (\<lambda>(k, v). quoteJSONString k @ '': ''
                                  @ serializeJSONProperty num (indent @ ''  '') v) properties)
           @ nl @ indent @ ''}'')"

definition jsonStringify :: "js_env \<Rightarrow> json \<Rightarrow> string" where
  "jsonStringify env v = serializeJSONProperty (numToString env) [] v"

text \<open>
  \<open>JSON.parse\<close>. White space is space, tab, line feed and carriage return.
\<close>

definition isWhitespace :: "char \<Rightarrow> bool" where
  "isWhitespace c = (c = CHR 0x20 \<or> c = CHR 0x09 \<or> c = CHR 0x0A \<or> c = CHR 0x0D)"

definition skipWhitespace :: "string \<Rightarrow> string" where
  "skipWhitespace s = dropWhile isWhitespace s"

definition isDigit :: "char \<Rightarrow> bool" where
  "isDigit c = (48 \<le> (of_char c :: nat) \<and> (of_char c :: nat) \<le> 57)"

text \<open>
  The characters of a number. A number is read up to the first character that is
  none of them, and \<open>parseNumber\<close> decides whether what was read is a number.
\<close>

definition isNumberChar :: "char \<Rightarrow> bool" where
  "isNumberChar c =
     (isDigit c \<or> c = CHR ''-'' \<or> c = CHR ''+'' \<or> c = CHR ''.'' \<or> c = CHR ''e''
      \<or> c = CHR ''E'')"

definition hexValue :: "char \<Rightarrow> nat option" where
  "hexValue c =
     (if isDigit c then Some (of_char c - 48)
      else if 97 \<le> (of_char c :: nat) \<and> (of_char c :: nat) \<le> 102 then Some (of_char c - 87)
      else if 65 \<le> (of_char c :: nat) \<and> (of_char c :: nat) \<le> 70 then Some (of_char c - 55)
      else None)"

text \<open>
  The four hexadecimal digits of a \<open>\u\<close> escape; a code unit above \<open>0xFF\<close> is
  outside the 8-bit strings of this model.
\<close>

definition decodeHex4 :: "string \<Rightarrow> char option" where
  "decodeHex4 s =
     (case map hexValue s of
        [Some a, Some b, Some c, Some d] \<Rightarrow>
          (if a = 0 \<and> b = 0 then Some (char_of (c * 16 + d)) else None)
      | _ \<Rightarrow> None)"

definition unescape :: "char \<Rightarrow> char option" where
  "unescape e =
     (if e = quoteMark then Some quoteMark
      else if e = backslash then Some backslash
      else if e = CHR ''/'' then Some (CHR ''/'')
      else if e = CHR ''b'' then Some (CHR 0x08)
      else if e = CHR ''f'' then Some (CHR 0x0C)
      else if e = CHR ''n'' then Some (CHR 0x0A)
      else if e = CHR ''r'' then Some (CHR 0x0D)
      else if e = CHR ''t'' then Some (CHR 0x09)
      else None)"

text \<open>
  The characters of a string after its opening quote, up to the closing quote: the
  string read and the rest of the text.
\<close>

function parseChars :: "string \<Rightarrow> (string \<times> string) option" where
  "parseChars [] = None"
| "parseChars (c # s) =
     (if c = quoteMark then Some ([], s)
      else if c = backslash then
        (case s of
           [] \<Rightarrow> None
         | e # t \<Rightarrow>
             if e = CHR ''u'' then
               (case decodeHex4 (take 4 t) of
                  None \<Rightarrow> None
                | Some ch \<Rightarrow>
                    (case parseChars (drop 4 t) of
                       None \<Rightarrow> None
                     | Some (str, r) \<Rightarrow> Some (ch # str, r)))
             else
               (case unescape e of
                  None \<Rightarrow> None
                | Some ch \<Rightarrow>
                    (case parseChars t of
                       None \<Rightarrow> None
                     | Some (str, r) \<Rightarrow> Some (ch # str, r))))
      else if of_char c < (32 :: nat) then None
      else
        (case parseChars s of
           None \<Rightarrow> None
         | Some (str, r) \<Rightarrow> Some (c # str, r)))"
  by pat_completeness auto

termination
  by (relation "measure length") auto

text \<open>
  An array index is the decimal text, without a leading zero, of an integer below
  \<open>2 ^ 32 - 1\<close>. The engine enumerates the properties whose key is an array index
  first, in ascending order, and the others in the order of their creation;
  \<open>defineProperty\<close> is \<open>CreateDataProperty\<close> on such a list: it replaces the value
  of a key that is present.
\<close>

definition decimalValue :: "string \<Rightarrow> nat" where
  "decimalValue s = foldl (\<lambda>n c. 10 * n + (of_char c - 48)) 0 s"

definition isArrayIndex :: "string \<Rightarrow> bool" where
  "isArrayIndex k =
     (k \<noteq> [] \<and> list_all isDigit k \<and> (k = ''0'' \<or> hd k \<noteq> CHR ''0'')
      \<and> decimalValue k < 2 ^ 32 - 1)"

fun insertIndexed :: "string \<Rightarrow> json \<Rightarrow> (string \<times> json) list \<Rightarrow> (string \<times> json) list" where
  "insertIndexed k v [] = [(k, v)]"
| "insertIndexed k v ((k', v') # properties) =
     (if isArrayIndex k' \<and> decimalValue k' < decimalValue k
      then (k', v') # insertIndexed k v properties
      else (k, v) # (k', v') # properties)"

definition defineProperty ::
  "string \<Rightarrow> json \<Rightarrow> (string \<times> json) list \<Rightarrow> (string \<times> json) list" where
  "defineProperty k v properties =
     (if map_of properties k \<noteq> None
        then map (\<lambda>(k', v'). if k' = k then (k', v) else (k', v')) properties
      else if isArrayIndex k then insertIndexed k v properties
      else properties @ [(k, v)])"

text \<open>
  The parser proper. The second argument bounds the depth of the calls; each call
  that passes it on has read a character or is followed by one that does, so twice
  the length of the text is never exhausted.
\<close>

fun parseValue :: "js_env \<Rightarrow> nat \<Rightarrow> string \<Rightarrow> (json \<times> string) option"
  and parseElements :: "js_env \<Rightarrow> nat \<Rightarrow> string \<Rightarrow> (json list \<times> string) option"
  and parseMembers ::
    "js_env \<Rightarrow> nat \<Rightarrow> string \<Rightarrow> (string \<times> json) list \<Rightarrow> ((string \<times> json) list \<times> string) option"
  where
  "parseValue env 0 s = None"
| "parseValue env (Suc n) s =
     (case skipWhitespace s of
        [] \<Rightarrow> None
      | c # t \<Rightarrow>
          if c = CHR ''{'' then
            (case skipWhitespace t of
               [] \<Rightarrow> None
             | c' # t' \<Rightarrow>
                 if c' = CHR ''}'' then Some (JObject [], t')
                 else (case parseMembers env n t [] of
                         None \<Rightarrow> None
                       | Some (properties, r) \<Rightarrow> Some (JObject properties, r)))
          else if c = CHR ''['' then
            (case skipWhitespace t of
               [] \<Rightarrow> None
             | c' # t' \<Rightarrow>
                 if c' = CHR '']'' then Some (JArray [], t')
                 else (case parseElements env n t of
                         None \<Rightarrow> None
                       | Some (elements, r) \<Rightarrow> Some (JArray elements, r)))
          else if c = quoteMark then
            (case parseChars t of
               None \<Rightarrow> None
             | Some (str, r) \<Rightarrow> Some (JString str, r))
          else if isDigit c \<or> c = CHR ''-'' then
            (case parseNumber env (takeWhile isNumberChar (c # t)) of
               None \<Rightarrow> None
             | Some x \<Rightarrow> Some (JNumber x, dropWhile isNumberChar (c # t)))
          else if take 4 (c # t) = ''null'' then Some (JNull, drop 4 (c # t))
          else if take 4 (c # t) = ''true'' then Some (JBool True, drop 4 (c # t))
          else if take 5 (c # t) = ''false'' then Some (JBool False, drop 5 (c # t))
          else None)"
| "parseElements env 0 s = None"
| "parseElements env (Suc n) s =
     (case parseValue env n s of
        None \<Rightarrow> None
      | Some (v, r) \<Rightarrow>
          (case skipWhitespace r of
             [] \<Rightarrow> None
           | c # r' \<Rightarrow>
               if c = CHR '','' then
                 (case parseElements env n r' of
                    None \<Rightarrow> None
                  | Some (elements, r'') \<Rightarrow> Some (v # elements, r''))
               else if c = CHR '']'' then Some ([v], r')
               else None))"
| "parseMembers env 0 s properties = None"
| "parseMembers env (Suc n) s properties =
     (case skipWhitespace s of
        [] \<Rightarrow> None
      | c # t \<Rightarrow>
          if c = quoteMark then
            (case parseChars t of
               None \<Rightarrow> None
             | Some (k, r) \<Rightarrow>
                 (case skipWhitespace r of
                    [] \<Rightarrow> None
                  | c' # r1 \<Rightarrow>
                      if c' = CHR '':'' then
                        (case parseValue env n r1 of
                           None \<Rightarrow> None
                         | Some (v, r2) \<Rightarrow>
                             (case skipWhitespace r2 of
                                [] \<Rightarrow> None
                              | c'' # r3 \<Rightarrow>
                                  if c'' = CHR '','' then
                                    parseMembers env n r3 (defineProperty k v properties)
                                  else if c'' = CHR ''}'' then
                                    Some (defineProperty k v properties, r3)
                                  else None))
                      else None))
          else None)"

definition jsonParse :: "js_env \<Rightarrow> string \<Rightarrow> json option" where
  "jsonParse env text =
     (case parseValue env (2 * length text + 2) text of
        None \<Rightarrow> None
      | Some (v, r) \<Rightarrow> if skipWhitespace r = [] then Some v else None)"

text \<open>Reading a property of a parsed value.\<close>

definition getMember :: "string \<Rightarrow> json \<Rightarrow> json option" where
  "getMember k v = (case v of JObject properties \<Rightarrow> map_of properties k | _ \<Rightarrow> None)"

text \<open>
  \<open>rebuild v\<close> builds every object of \<open>v\<close> property by property; a value of the
  language is left as it is, since the property list of an object has no key twice
  and is in the order of the engine.
\<close>

fun rebuild :: "json \<Rightarrow> json" where
  "rebuild (JArray elements) = JArray (map rebuild elements)"
| "rebuild (JObject properties) =
     JObject (foldl (\<lambda>acc (k, v). defineProperty k (rebuild v) acc) [] properties)"
| "rebuild v = v"

text \<open>The numbers of a value.\<close>

fun numbers :: "json \<Rightarrow> real list" where
  "numbers (JNumber x) = [x]"
| "numbers (JArray elements) = concat (map numbers elements)"
| "numbers (JObject properties) = concat (map (\<lambda>(k, v). numbers v) properties)"
| "numbers v = []"

text \<open>
  A number survives printing and reading when its text is a run of number
  characters that starts with a digit or a minus sign and reads back as the same
  number. \<open>Number::toString\<close> prints the shortest decimal that identifies the double,
  so every finite double does (the two zeros are one real number here).
\<close>

definition readsBack :: "js_env \<Rightarrow> real \<Rightarrow> bool" where
  "readsBack env x =
     (case numToString env x of
        [] \<Rightarrow> False
      | c # t \<Rightarrow> (isDigit c \<or> c = CHR ''-'') \<and> list_all isNumberChar t
                 \<and> parseNumber env (c # t) = Some x)"

text \<open>
  The envelope as a value: an omitted \<open>metadata\<close> argument is the empty object.
\<close>

definition envelopeValue :: "(json, json) exportData \<Rightarrow> json" where
  "envelopeValue d =
     JObject
       [(''version'', JString (version d)),
        (''exportedAt'', JString (exportedAt d)),
        (''metadata'', (case metadata d of None \<Rightarrow> JObject [] | Some m \<Rightarrow> m)),
        (''layout'', layout d)]"

text \<open>
  A layout as a value; an absent field is an absent property.
\<close>

definition roomValue :: "room \<Rightarrow> json" where
  "roomValue room =
     JObject
       [(''id'', JString (room_id room)),
        (''name'', JString (room_name room)),
        (''area'', JNumber (room_area room)),
        (''x'', JNumber (room_x room)),
        (''y'', JNumber (room_y room)),
        (''width'', JNumber (room_width room)),
        (''height'', JNumber (room_height room))]"

definition pathValue :: "path \<Rightarrow> json" where
  "pathValue path =
     JObject
       [(''from'', JString (path_from path)),
        (''to'', JString (path_to path)),
        (''width'', JNumber (path_width path))]"

definition layoutValue :: "layoutData \<Rightarrow> json" where
  "layoutValue layoutData =
     JObject
       ((case rooms layoutData of
           None \<Rightarrow> []
         | Some roomList \<Rightarrow> [(''rooms'', JArray (map roomValue roomList))])
        @ (case circulation layoutData of
             None \<Rightarrow> []
           | Some paths \<Rightarrow> [(''circulation'', JArray (map pathValue paths))]))"

text \<open>A bound on the depth of the calls that reading a printed value takes.\<close>

fun fuelOf :: "json \<Rightarrow> nat" where
  "fuelOf (JArray elements) = Suc (sum_list (map (\<lambda>v. Suc (fuelOf v)) elements))"
| "fuelOf (JObject properties) = Suc (sum_list (map (\<lambda>(k, v). Suc (fuelOf v)) properties))"
| "fuelOf v = 1"

text \<open>The characters that can open a value: no white space and no closing sign.\<close>

definition opensValue :: "char \<Rightarrow> bool" where
  "opensValue c = (\<not> isWhitespace c \<and> c \<noteq> CHR '']'' \<and> c \<noteq> CHR ''}'' \<and> c \<noteq> CHR '',''
                   \<and> c \<noteq> CHR '':'')"

subsection \<open>CSV\<close>

text \<open>\<open>xs.join(',')\<close>.\<close>

fun joinComma :: "string list \<Rightarrow> string" where
  "joinComma [] = []"
| "joinComma [s] = s"
| "joinComma (s # t # ss) = s @ '','' @ joinComma (t # ss)"

definition csvRow :: "js_env \<Rightarrow> room \<Rightarrow> string" where
  \<open>csvRow env room =
     joinComma
       [room_id room,
        ''"'' @ room_name room @ ''"'',
        numToString env (room_area room),
        numToString env (room_width room),
        numToString env (room_height room),
        numToString env (room_x room),
        numToString env (room_y room)] @ nl\<close>

definition exportRoomScheduleToCSV :: "js_env \<Rightarrow> room list option \<Rightarrow> js_error + string" where
  "exportRoomScheduleToCSV env roomList =
     (let headers = [''Room ID'', ''Room Name'', ''Area (sq ft)'', ''Width (ft)'',
                     ''Height (ft)'', ''X Position'', ''Y Position''];
          csv = joinComma headers @ nl
      in case roomList of
           None \<Rightarrow> Inl TypeError
         | Some rs \<Rightarrow> Inr (csv @ concat (map (csvRow env) rs)))"

subsection \<open>Batch export\<close>

record blob =
  blob_parts :: string
  blob_type :: string

definition createDownloadBlob :: "string \<Rightarrow> string \<Rightarrow> blob" where
  "createDownloadBlob content mimeType = \<lparr>blob_parts = content, blob_type = mimeType\<rparr>"

text \<open>
  One entry of the result object. \<open>size\<close> is \<open>blob.size\<close>, which the host computes.
\<close>

record exportResult =
  success :: bool
  result_blob :: "blob option"
  filename :: "string option"
  size :: "nat option"
  error :: "string option"

text \<open>\<open>error.message\<close> of a caught exception.\<close>

definition errorMessage :: "js_env \<Rightarrow> js_error \<Rightarrow> string" where
  "errorMessage env e =
     (case e of Error m \<Rightarrow> m | TypeError \<Rightarrow> typeErrorMessage env
      | RangeError \<Rightarrow> rangeErrorMessage env)"

text \<open>The class \<open>[a-zA-Z0-9]\<close> of the regular expression.\<close>

definition alnum :: "char \<Rightarrow> bool" where
  "alnum c =
     (let n = (of_char c :: nat)
      in (97 \<le> n \<and> n \<le> 122) \<or> (65 \<le> n \<and> n \<le> 90) \<or> (48 \<le> n \<and> n \<le> 57))"

text \<open>\<open>s.replace(/[^a-zA-Z0-9]/g, '_')\<close>.\<close>

definition replaceNonAlnum :: "string \<Rightarrow> string" where
  "replaceNonAlnum s = map (\<lambda>c. if alnum c then c else CHR ''_'') s"

text \<open>\<open>projectInfo.name?.replace(/[^a-zA-Z0-9]/g, '_') || 'layout'\<close>.\<close>

definition sanitizedProjectName :: "projectInfo \<Rightarrow> string" where
  "sanitizedProjectName info = orElse (map_option replaceNonAlnum (name info)) ''layout''"

text \<open>
  The \<open>switch\<close> on \<open>format.toLowerCase()\<close>: content, MIME type and extension, or
  the exception that the \<open>catch\<close> of the loop body receives.
\<close>

definition encode ::
  "((projectInfo, layoutData) exportData \<Rightarrow> string) \<Rightarrow> js_env \<Rightarrow> layoutData \<Rightarrow> projectInfo
     \<Rightarrow> string \<Rightarrow> js_error + (string \<times> string \<times> string)" where
  "encode stringify env layoutData info format =
     (let f = toLowerCase format
      in if f = ''dxf'' then
           map_sum id (\<lambda>content. (content, ''application/dxf'', ''dxf''))
             (exportToDXF env layoutData None)
         else if f = ''svg'' then
           map_sum id (\<lambda>content. (content, ''image/svg+xml'', ''svg''))
             (exportToSVG env layoutData None)
         else if f = ''pdf'' then
           map_sum id (\<lambda>content. (content, ''text/html'', ''html''))
             (exportToPDF env layoutData (Some info) None)
         else if f = ''json'' then
           Inr (exportToJSON stringify env layoutData (Some info), ''application/json'', ''json'')
         else if f = ''csv'' then
           map_sum id (\<lambda>content. (content, ''text/csv'', ''csv''))
             (exportRoomScheduleToCSV env (rooms layoutData))
         else Inl (Error (''Unsupported format: '' @ format)))"

text \<open>
  The body of the loop over the formats. \<open>results[format] = ...\<close> stores the entry
  under the format as given; for the key \<open>__proto__\<close> the assignment sets the
  prototype of the result object and stores no entry.
\<close>

definition exportOne ::
  "((projectInfo, layoutData) exportData \<Rightarrow> string) \<Rightarrow> js_env \<Rightarrow> layoutData \<Rightarrow> projectInfo
     \<Rightarrow> string \<Rightarrow> string \<Rightarrow> string \<Rightarrow> (string \<rightharpoonup> exportResult)
     \<Rightarrow> (string \<rightharpoonup> exportResult)" where
  "exportOne stringify env layoutData info timestamp projectName format results =
     (let entry =
            (case encode stringify env layoutData info format of
               Inr (content, mimeType, extension) \<Rightarrow>
                 (let b = createDownloadBlob content mimeType
                  in \<lparr>success = True, result_blob = Some b,
                      filename = Some (projectName @ ''_'' @ timestamp @ ''.'' @ extension),
                      size = Some (blobSize env content), error = None\<rparr>)
             | Inl e \<Rightarrow>
                 \<lparr>success = False, result_blob = None, filename = None, size = None,
                  error = Some (errorMessage env e)\<rparr>)
      in if format = ''__proto__'' then results else results(format \<mapsto> entry))"

definition exportMultipleFormats ::
  "((projectInfo, layoutData) exportData \<Rightarrow> string) \<Rightarrow> js_env \<Rightarrow> layoutData \<Rightarrow> projectInfo
     \<Rightarrow> string list option \<Rightarrow> (string \<rightharpoonup> exportResult)" where
  "exportMultipleFormats stringify env layoutData info formats =
     (let timestamp = take 10 (isoNow env);
          projectName = sanitizedProjectName info
      in fold (exportOne stringify env layoutData info timestamp projectName)
           (case formats of None \<Rightarrow> [''svg'', ''dxf'', ''json''] | Some fs \<Rightarrow> fs) Map.empty)"

section \<open>Example environment\<close>

text \<open>
  A host environment for evaluating the functions on concrete inputs: arithmetic is
  exact, every number prints as \<open>#\<close> and no text reads as a number, built-in values have no truthy property, and the clock shows the
  fifth of March 2024.
\<close>

definition exampleEnv :: js_env where
  "exampleEnv =
     \<lparr>fl = Fin,
      numToString = (\<lambda>_. ''#''),
      parseNumber = (\<lambda>_. None),
      builtinProp = (\<lambda>_ _. Some False),
      isoNow = ''2024-03-05T10:20:30.000Z'',
      localeDate = ''3/5/2024'',
      blobSize = length,
      typeErrorMessage = ''Cannot read properties of undefined'',
      rangeErrorMessage = ''Maximum call stack size exceeded''\<rparr>"

text \<open>
  The sanitization as the specification words it (every character outside
  \<open>[A-Za-z0-9_]\<close> is removed), for comparison with \<open>sanitizedProjectName\<close>.
\<close>

definition specSanitize :: "string \<Rightarrow> string" where
  "specSanitize s = filter (\<lambda>c. alnum c \<or> c = CHR ''_'') s"

text \<open>
  The layout of the specification's scenario: an office of 50 sq ft and a meeting
  room of 150 sq ft, joined by a path 2 ft wide.
\<close>

definition exampleLayout :: layoutData where
  "exampleLayout =
     \<lparr>rooms = Some
        [\<lparr>room_id = ''r1'', room_name = ''Office'', room_area = 50, room_x = 0, room_y = 0,
          room_width = 10, room_height = 5\<rparr>,
         \<lparr>room_id = ''r2'', room_name = ''Meeting'', room_area = 150, room_x = 10, room_y = 0,
          room_width = 10, room_height = 15\<rparr>],
      circulation = Some [\<lparr>path_from = ''r1'', path_to = ''r2'', path_width = 2\<rparr>]\<rparr>"

text \<open>A layout whose only path joins two rooms that do not exist.\<close>

definition danglingLayout :: layoutData where
  "danglingLayout =
     \<lparr>rooms = Some [],
      circulation = Some [\<lparr>path_from = ''a'', path_to = ''b'', path_width = 2\<rparr>]\<rparr>"

text \<open>
  A rounding whose largest number is \<open>2 ^ 20\<close>: exact up to there, infinite beyond.
  It overflows the way doubles do beyond \<open>1.8e308\<close>, at numbers small enough to
  write down.
\<close>

definition saturating :: "real \<Rightarrow> jsnum" where
  "saturating x = (if 2 ^ 20 < x then PInf else if x < - (2 ^ 20) then NInf else Fin x)"

text \<open>Two rooms whose areas, and the sides of whose bounding box, multiply out of range.\<close>

definition overflowLayout :: layoutData where
  "overflowLayout =
     \<lparr>rooms = Some
        [\<lparr>room_id = ''r1'', room_name = ''Hall'', room_area = 1048576, room_x = 0, room_y = 0,
          room_width = 2048, room_height = 1024\<rparr>,
         \<lparr>room_id = ''r2'', room_name = ''Annex'', room_area = 1048576, room_x = 0, room_y = 0,
          room_width = 2048, room_height = 1024\<rparr>],
      circulation = Some []\<rparr>"

text \<open>
  A host that prints the numbers of \<open>exampleLayout\<close> in decimal and reads them back.
\<close>

definition exampleNumerals :: "(real \<times> string) list" where
  "exampleNumerals =
     [(0, ''0''), (2, ''2''), (5, ''5''), (10, ''10''), (15, ''15''), (50, ''50''),
      (150, ''150'')]"

definition jsonEnv :: js_env where
  "jsonEnv =
     exampleEnv
       \<lparr>numToString := (\<lambda>x. case map_of exampleNumerals x of None \<Rightarrow> ''#'' | Some s \<Rightarrow> s),
        parseNumber := map_of (map (\<lambda>(x, s). (s, x)) exampleNumerals)\<rparr>"

section \<open>Termination of the metrics calculator\<close>

text \<open>
  Claim C1: for every layout and every options value, \<open>calculateAllMetrics\<close>
  terminates and returns a PerformanceMetrics record, never signalling an error; the
  mutually recursive pair \<open>calculateAllMetrics\<close> / \<open>generateRecommendations\<close> is
  total.
  The code does not return: \<open>calculateAllMetrics\<close> calls
  \<open>generateRecommendations\<close>, which calls \<open>calculateAllMetrics\<close> on the same
  layout, and nothing stops the descent. Whatever the depth of the call stack, both
  functions end in \<open>RangeError\<close> and neither ever returns a value.
\<close>

theorem calculateAllMetrics_stack_overflow:
  "calculateAllMetrics env depth layoutData options = Inl RangeError
   \<and> generateRecommendations env depth layoutData = Inl RangeError"
proof (induction depth arbitrary: options)
  case 0
  show ?case by simp
next
  case (Suc depth)
  have g: "generateRecommendations env depth layoutData = Inl RangeError"
    using Suc.IH by simp
  have c: "calculateAllMetrics env depth layoutData None = Inl RangeError"
    using Suc.IH by simp
  show ?case by (simp add: g c Let_def)
qed

section \<open>Ranges of the scores\<close>

text \<open>
  The scores are computed in the arithmetic of doubles. What the proofs use of the
  rounding is \<open>roundsToNearest\<close>: a rounded result is never \<open>NaN\<close>, lies between
  the roundings of any bounds of the exact result, and keeps its sign.
\<close>

subsection \<open>What the rounding keeps\<close>








lemma inRange_FinI: "lo \<le> a \<Longrightarrow> a \<le> hi \<Longrightarrow> inRange lo hi (Fin a)"
  by (simp add: inRange_def)


lemma inRange_nonNegative: "inRange lo hi v \<Longrightarrow> 0 \<le> lo \<Longrightarrow> nonNegative v"
  by (cases v) (simp_all add: inRange_def nonNegative_def)











subsection \<open>Operations on bounded operands\<close>






subsection \<open>Scores that end in a clamp\<close>





subsection \<open>The bounding box and the space utilization\<close>










subsection \<open>Energy efficiency\<close>






subsection \<open>The five scores\<close>


lemma saturating_rounds: "roundsToNearest saturating"
proof -
  have "\<bar>real_of_int k\<bar> \<le> 2 ^ 30 \<Longrightarrow> \<bar>real_of_int k / 1024\<bar> \<le> 2 ^ 20" for k :: int
    by simp
  then have e: "\<bar>k\<bar> \<le> 2 ^ 30 \<Longrightarrow> saturating (of_int k / 1024) = Fin (of_int k / 1024)"
    for k :: int
    by (simp add: saturating_def abs_le_iff)
  show ?thesis
    unfolding roundsToNearest_def using e
    by (auto simp add: saturating_def jle_def jless_def)
qed


text \<open>
  With rooms, four of the scores are built from quotients, and the quotient of two
  infinities or of two zeros is \<open>NaN\<close>, which lies in no range. The two areas
  that \<open>calculateSpaceUtilization\<close> divides are both infinite when the areas of
  the rooms and the sides of the bounding box overflow; the bounding box has a side
  of zero when a coordinate is so large that adding the width does not change it.
  The first case, evaluated with the rounding \<open>saturating\<close>:
\<close>

lemma overflow_gives_NaN:
  "calculateSpaceUtilization (exampleEnv\<lparr>fl := saturating\<rparr>) overflowLayout = NaN"
  by (simp add: calculateSpaceUtilization_def overflowLayout_def calculateBuildingBounds_def
        extendBuildingBounds_def roomBuildingBox_def sumOfAreas_def saturating_def
        jadd_def jsub_def jmul_def jdiv_def jmax_def jmin_def jless_def jround_def
        signedInf_def signedZero_def Let_def)



section \<open>The compliance rule engine\<close>

subsection \<open>What the checks do to the results object\<close>

lemma count_simps [simp]:
  "issues (countCheck r) = issues r" "warnings (countCheck r) = warnings r" "status (countCheck r) = status r"
  "issues (countPassed r) = issues r" "warnings (countPassed r) = warnings r" "status (countPassed r) = status r"
  "issues (countFailed r) = issues r" "warnings (countFailed r) = warnings r" "status (countFailed r) = status r"
  "issues (countWarning r) = issues r" "warnings (countWarning r) = warnings r" "status (countWarning r) = status r"
  by (simp_all add: countCheck_def countPassed_def countFailed_def countWarning_def)

lemma push_simps [simp]:
  "issues (pushIssue i r) = issues r @ [i]" "warnings (pushIssue i r) = warnings r" "status (pushIssue i r) = status r"
  "issues (pushWarning w r) = issues r" "warnings (pushWarning w r) = warnings r @ [w]" "status (pushWarning w r) = status r"
  by (simp_all add: pushIssue_def pushWarning_def)

lemma corridor_fold:
  "issues (fold (corridorCheck env k m) xs r)
     = issues r @ map (corridorIssue env k m) (filter (\<lambda>ip. path_width (snd ip) * 12 < m) xs)"
  "warnings (fold (corridorCheck env k m) xs r) = warnings r"
  "status (fold (corridorCheck env k m) xs r) = status r"
  by (induction xs arbitrary: r) (simp_all add: corridorCheck_def Let_def)

lemma route_fold:
  "issues (fold (accessibleRouteCheck env k m) xs r)
     = issues r @ map (accessibleRouteIssue env k m) (filter (\<lambda>ip. path_width (snd ip) * 12 < m) xs)"
  "warnings (fold (accessibleRouteCheck env k m) xs r) = warnings r"
  "status (fold (accessibleRouteCheck env k m) xs r) = status r"
  by (induction xs arbitrary: r) (simp_all add: accessibleRouteCheck_def Let_def)

lemma door_fold:
  "issues (fold (doorCheck env k rs) xs r)
     = issues r @ map (doorIssue env k rs)
         (filter (\<lambda>ip. min (path_width (snd ip) * 12) 36 < requiredDoorWidth rs) xs)"
  "warnings (fold (doorCheck env k rs) xs r) = warnings r"
  "status (fold (doorCheck env k rs) xs r) = status r"
  by (induction xs arbitrary: r) (simp_all add: doorCheck_def Let_def)

lemma area_fold:
  "issues (fold (roomAreaCheck env k ar) rms r)
     = issues r @ concat (map (\<lambda>room. case map_of ar (inferRoomType (room_name room)) of
            None \<Rightarrow> [] | Some m \<Rightarrow> if room_area room < m then [roomAreaIssue env k m room] else []) rms)"
  "warnings (fold (roomAreaCheck env k ar) rms r) = warnings r"
  "status (fold (roomAreaCheck env k ar) rms r) = status r"
  by (induction rms arbitrary: r) (simp_all add: roomAreaCheck_def Let_def split: option.splits)

lemma turning_fold:
  "issues (fold (turningSpaceCheck env k t) rms r) = issues r"
  "warnings (fold (turningSpaceCheck env k t) rms r)
     = warnings r @ map (turningSpaceWarning env k t)
         (filter (\<lambda>room. room_area room < (t / 12)\<^sup>2 \<and> requiresTurningSpace (room_name room)) rms)"
  "status (fold (turningSpaceCheck env k t) rms r) = status r"
  by (induction rms arbitrary: r) (simp_all add: turningSpaceCheck_def Let_def)

lemma severity_simps [simp]:
  "severity (corridorIssue env k m ip) = ''critical''"
  "severity (accessibleRouteIssue env k m ip) = ''critical''"
  "severity (doorIssue env k rs ip) = ''critical''"
  "severity (roomAreaIssue env k m room) = ''critical''"
  "severity (turningSpaceWarning env k t room) = ''warning''"
  by (simp_all add: corridorIssue_def accessibleRouteIssue_def doorIssue_def roomAreaIssue_def
        turningSpaceWarning_def Let_def)

lemma turning_needs_area:
  assumes "requiresTurningSpace n"
  shows "\<exists>m. map_of [(''office'', 80), (''meeting'', 120), (''restroom'', 30::real)] (inferRoomType n) = Some m \<and> 30 \<le> m"
  using assms by (auto simp add: requiresTurningSpace_def inferRoomType_def Let_def)

lemma applicable_tables:
  assumes "getApplicableCodes env c ks = Inr cds" and "cd \<in> set cds"
  shows "table cd \<in> {None, Some IBC, Some ADA, Some IRC, Some NBC}"
proof -
  consider "c = ''US''" | "c = ''CA''" | "c \<noteq> ''US'' \<and> c \<noteq> ''CA''" by blast
  then show ?thesis
  proof cases
    case 1
    with assms show ?thesis
      by (auto simp add: getApplicableCodes_def getProperty_def BUILDING_CODES_def
            split: if_splits option.splits)
  next
    case 2
    with assms show ?thesis
      by (auto simp add: getApplicableCodes_def getProperty_def BUILDING_CODES_def
            split: if_splits option.splits)
  next
    case 3
    with assms show ?thesis
      by (auto simp add: getApplicableCodes_def getProperty_def BUILDING_CODES_def
            split: if_splits option.splits)
  qed
qed

lemma small_room_has_area_issue:
  assumes "room \<in> set rms" and "room_area room < 25" and "requiresTurningSpace (room_name room)"
  shows "concat (map (\<lambda>room. case map_of [(''office'', 80), (''meeting'', 120), (''restroom'', 30::real)]
                  (inferRoomType (room_name room)) of
            None \<Rightarrow> [] | Some m \<Rightarrow> if room_area room < m then [roomAreaIssue env k m room] else []) rms) \<noteq> []"
proof -
  obtain m where m: "map_of [(''office'', 80), (''meeting'', 120), (''restroom'', 30::real)]
      (inferRoomType (room_name room)) = Some m" "30 \<le> m"
    using turning_needs_area [OF assms(3)] by blast
  have "room_area room < m" using assms(2) m(2) by simp
  with m(1) assms(1) show ?thesis
    by (auto simp del: map_of.simps intro!: bexI [of _ room])
qed

lemma IBC_rules [simp]:
  "corridorWidth (rules IBC) = Some 44" "exitWidth (rules IBC) = Some 32"
  "doorWidth (rules IBC) = None"
  "roomArea (rules IBC) = Some [(''office'', 80), (''meeting'', 120), (''restroom'', 30)]"
  "accessibility (rules IBC)
     = Some \<lparr>acc_doorWidth = Some 32, acc_corridorWidth = Some 36, acc_turningSpace = Some 60\<rparr>"
  by (simp_all add: IBC_def noRules_def)

lemma ADA_rules [simp]:
  "corridorWidth (rules ADA) = Some 36" "exitWidth (rules ADA) = None"
  "doorWidth (rules ADA) = Some 32" "roomArea (rules ADA) = None"
  "accessibility (rules ADA) = None"
  by (simp_all add: ADA_def noRules_def)

lemma IRC_rules [simp]:
  "corridorWidth (rules IRC) = None" "exitWidth (rules IRC) = None"
  "doorWidth (rules IRC) = None" "roomArea (rules IRC) = None"
  "accessibility (rules IRC) = None"
  by (simp_all add: IRC_def noRules_def)

lemma NBC_rules [simp]:
  "corridorWidth (rules NBC) = Some 1100" "exitWidth (rules NBC) = Some 850"
  "doorWidth (rules NBC) = None" "roomArea (rules NBC) = None"
  "accessibility (rules NBC) = None"
  by (simp_all add: NBC_def noRules_def)

lemma runCodeChecks_IBC:
  assumes "table cd = Some IBC" and "circulation l = Some ps"
  shows "runCodeChecks env l cd res =
     Inr (fold (doorCheck env (key cd) (rules IBC)) (enumerate 0 ps)
       (case rooms l of
          None \<Rightarrow> fold (corridorCheck env (key cd) 44) (enumerate 0 ps) res
        | Some rms \<Rightarrow>
            fold (turningSpaceCheck env (key cd) 60) rms
              (fold (accessibleRouteCheck env (key cd) 36) (enumerate 0 ps)
                (fold (roomAreaCheck env (key cd)
                         [(''office'', 80), (''meeting'', 120), (''restroom'', 30)]) rms
                  (fold (corridorCheck env (key cd) 44) (enumerate 0 ps) res)))))"
  using assms
  by (simp add: runCodeChecks_def checkDoorWidths_def checkAccessibilityCompliance_def
        truthyNum_def Let_def split: option.splits)

lemma runCodeChecks_ADA:
  assumes "table cd = Some ADA" and "circulation l = Some ps"
  shows "runCodeChecks env l cd res =
     Inr (fold (doorCheck env (key cd) (rules ADA)) (enumerate 0 ps)
            (fold (corridorCheck env (key cd) 36) (enumerate 0 ps) res))"
  using assms
  by (simp add: runCodeChecks_def checkDoorWidths_def Let_def split: option.splits)

lemma runCodeChecks_NBC:
  assumes "table cd = Some NBC" and "circulation l = Some ps"
  shows "runCodeChecks env l cd res =
     Inr (fold (doorCheck env (key cd) (rules NBC)) (enumerate 0 ps)
            (fold (corridorCheck env (key cd) 1100) (enumerate 0 ps) res))"
  using assms
  by (simp add: runCodeChecks_def checkDoorWidths_def Let_def split: option.splits)

lemma runCodeChecks_IRC:
  assumes "table cd = Some IRC"
  shows "runCodeChecks env l cd res = Inr res"
  using assms by (simp add: runCodeChecks_def Let_def split: option.splits)

lemma runCodeChecks_needs_circulation:
  assumes "runCodeChecks env l cd res = Inr res'"
    and "table cd = Some IBC \<or> table cd = Some ADA \<or> table cd = Some NBC"
  shows "\<exists>ps. circulation l = Some ps"
  using assms
  by (cases "circulation l")
     (auto simp add: runCodeChecks_def checkDoorWidths_def Let_def split: option.splits)

lemma runCodeChecks_inv:
  assumes run: "runCodeChecks env l cd res = Inr res'"
    and tab: "table cd \<in> {None, Some IBC, Some ADA, Some IRC, Some NBC}"
    and crit: "\<forall>i\<in>set (issues res). severity i = ''critical''"
    and warn: "warnings res \<noteq> [] \<longrightarrow> issues res \<noteq> []"
    and stat: "status res = ''compliant''"
  shows "(\<forall>i\<in>set (issues res'). severity i = ''critical'')
         \<and> (warnings res' \<noteq> [] \<longrightarrow> issues res' \<noteq> [])
         \<and> status res' = ''compliant''"
proof -
  from run have "table cd \<noteq> None"
    by (cases "table cd") (simp_all add: runCodeChecks_def)
  with tab consider "table cd = Some IBC" | "table cd = Some ADA" | "table cd = Some IRC"
    | "table cd = Some NBC" by auto
  then show ?thesis
  proof cases
    case 1
    then obtain ps where ps: "circulation l = Some ps"
      using runCodeChecks_needs_circulation [OF run] by blast
    note eq = runCodeChecks_IBC [OF 1 ps, of env res]
    show ?thesis
    proof (cases "rooms l")
      case None
      with run eq have "res' = fold (doorCheck env (key cd) (rules IBC)) (enumerate 0 ps)
          (fold (corridorCheck env (key cd) 44) (enumerate 0 ps) res)" by simp
      with crit warn stat show ?thesis
        by (auto simp add: corridor_fold door_fold)
    next
      case (Some rms)
      define areaIssues where "areaIssues = concat (map (\<lambda>room.
            case map_of [(''office'', 80), (''meeting'', 120), (''restroom'', 30::real)]
                   (inferRoomType (room_name room)) of
              None \<Rightarrow> []
            | Some m \<Rightarrow> if room_area room < m then [roomAreaIssue env (key cd) m room] else [])
          rms)"
      define small where
        "small = filter (\<lambda>room. room_area room < 25 \<and> requiresTurningSpace (room_name room)) rms"
      define A where "A = map (corridorIssue env (key cd) 44)
          (filter (\<lambda>ip. path_width (snd ip) * 12 < 44) (enumerate 0 ps))"
      define B where "B = map (accessibleRouteIssue env (key cd) 36)
          (filter (\<lambda>ip. path_width (snd ip) * 12 < 36) (enumerate 0 ps))"
      define C where "C = map (doorIssue env (key cd) (rules IBC))
          (filter (\<lambda>ip. min (path_width (snd ip) * 12) 36 < requiredDoorWidth (rules IBC))
             (enumerate 0 ps))"
      have sq: "((60::real) / 12)\<^sup>2 = 25" by (simp add: power2_eq_square)
      from run eq Some have res': "res' = fold (doorCheck env (key cd) (rules IBC)) (enumerate 0 ps)
            (fold (turningSpaceCheck env (key cd) 60) rms
              (fold (accessibleRouteCheck env (key cd) 36) (enumerate 0 ps)
                (fold (roomAreaCheck env (key cd)
                         [(''office'', 80), (''meeting'', 120), (''restroom'', 30)]) rms
                  (fold (corridorCheck env (key cd) 44) (enumerate 0 ps) res))))" by simp
      have w: "warnings res' = warnings res @ map (turningSpaceWarning env (key cd) 60) small"
        unfolding res' small_def
        by (simp add: corridor_fold door_fold area_fold route_fold turning_fold sq)
      have i: "issues res' = issues res @ A @ areaIssues @ B @ C"
        unfolding res' A_def B_def C_def areaIssues_def
        by (simp only: corridor_fold door_fold area_fold route_fold turning_fold append_assoc)
      have "\<forall>i\<in>set areaIssues. severity i = ''critical''"
        unfolding areaIssues_def
        by (auto simp del: map_of.simps split: option.splits if_splits)
      moreover have "\<forall>i\<in>set A. severity i = ''critical''" unfolding A_def by auto
      moreover have "\<forall>i\<in>set B. severity i = ''critical''" unfolding B_def by auto
      moreover have "\<forall>i\<in>set C. severity i = ''critical''" unfolding C_def by auto
      ultimately have allcrit: "\<forall>i\<in>set (issues res'). severity i = ''critical''"
        using crit unfolding i by auto
      have imp: "small \<noteq> [] \<Longrightarrow> areaIssues \<noteq> []"
      proof -
        assume "small \<noteq> []"
        then obtain room where "room \<in> set small" by (cases small) auto
        then have "room \<in> set rms" "room_area room < 25" "requiresTurningSpace (room_name room)"
          unfolding small_def by auto
        then show ?thesis unfolding areaIssues_def by (rule small_room_has_area_issue)
      qed
      have "warnings res' \<noteq> [] \<longrightarrow> issues res' \<noteq> []"
        using w i warn imp by auto
      moreover note allcrit
      moreover have "status res' = ''compliant''"
        unfolding res' using stat
        by (simp add: corridor_fold door_fold area_fold route_fold turning_fold)
      ultimately show ?thesis by blast
    qed
  next
    case 2
    then obtain ps where ps: "circulation l = Some ps"
      using runCodeChecks_needs_circulation [OF run] by blast
    from run runCodeChecks_ADA [OF 2 ps, of env res] crit warn stat show ?thesis
      by (auto simp add: corridor_fold door_fold)
  next
    case 3
    from run runCodeChecks_IRC [OF 3, of env l res] crit warn stat show ?thesis by auto
  next
    case 4
    then obtain ps where ps: "circulation l = Some ps"
      using runCodeChecks_needs_circulation [OF run] by blast
    from run runCodeChecks_NBC [OF 4 ps, of env res] crit warn stat show ?thesis
      by (auto simp add: corridor_fold door_fold)
  qed
qed

lemma runAllCodeChecks_inv:
  assumes "runAllCodeChecks env l cds res = Inr res'"
    and "\<forall>cd\<in>set cds. table cd \<in> {None, Some IBC, Some ADA, Some IRC, Some NBC}"
    and "\<forall>i\<in>set (issues res). severity i = ''critical''"
    and "warnings res \<noteq> [] \<longrightarrow> issues res \<noteq> []"
    and "status res = ''compliant''"
  shows "(\<forall>i\<in>set (issues res'). severity i = ''critical'')
         \<and> (warnings res' \<noteq> [] \<longrightarrow> issues res' \<noteq> [])
         \<and> status res' = ''compliant''"
  using assms
proof (induction cds arbitrary: res)
  case Nil
  then show ?case by simp
next
  case (Cons cd cds)
  from Cons.prems(1) obtain mid where mid: "runCodeChecks env l cd res = Inr mid"
    and rest: "runAllCodeChecks env l cds mid = Inr res'"
    by (auto split: sum.splits)
  have inv: "(\<forall>i\<in>set (issues mid). severity i = ''critical'')
         \<and> (warnings mid \<noteq> [] \<longrightarrow> issues mid \<noteq> [])
         \<and> status mid = ''compliant''"
    using runCodeChecks_inv [OF mid] Cons.prems by simp
  show ?case
    using Cons.IH [OF rest] Cons.prems(2) inv by simp
qed

lemma determineStatus_fields [simp]:
  "issues (determineStatus r) = issues r" "warnings (determineStatus r) = warnings r"
  by (simp_all add: determineStatus_def Let_def)

lemma updateSummary_fields [simp]:
  "issues (updateSummary r) = issues r" "warnings (updateSummary r) = warnings r"
  "status (updateSummary r) = status r"
  by (simp_all add: updateSummary_def)

lemma determineStatus_status:
  "status (determineStatus r) =
     (if issues r = [] then status r
      else if \<exists>i\<in>set (issues r). severity i = ''critical'' then ''non-compliant''
      else ''warning'')"
  by (auto simp add: determineStatus_def Let_def filter_empty_conv)

lemma checkCompliance_resolved:
  assumes "checkCompliance env layoutData settings = Inr r"
    and "getApplicableCodes env (countryOf settings) (codesOf settings) = Inr cds"
    and "cds \<noteq> []"
  shows "\<exists>res. runAllCodeChecks env layoutData cds initialResults = Inr res
           \<and> r = updateSummary (determineStatus res)
           \<and> (\<forall>i\<in>set (issues res). severity i = ''critical'')
           \<and> (warnings res \<noteq> [] \<longrightarrow> issues res \<noteq> [])
           \<and> status res = ''compliant''"
proof -
  from assms obtain res where run: "runAllCodeChecks env layoutData cds initialResults = Inr res"
    and r: "r = updateSummary (determineStatus res)"
    by (auto simp add: checkCompliance_def split: sum.splits)
  have tabs: "\<forall>cd\<in>set cds. table cd \<in> {None, Some IBC, Some ADA, Some IRC, Some NBC}"
    using applicable_tables [OF assms(2)] by blast
  have "(\<forall>i\<in>set (issues res). severity i = ''critical'')
         \<and> (warnings res \<noteq> [] \<longrightarrow> issues res \<noteq> [])
         \<and> status res = ''compliant''"
    by (rule runAllCodeChecks_inv [OF run tabs]) (simp_all add: initialResults_def)
  with run r show ?thesis by blast
qed

lemma warning_comes_with_issue:
  assumes "checkCompliance env layoutData settings = Inr r" and "warnings r \<noteq> []"
  shows "issues r \<noteq> []"
proof -
  from assms(1) obtain cds where
    cds: "getApplicableCodes env (countryOf settings) (codesOf settings) = Inr cds"
    by (cases "getApplicableCodes env (countryOf settings) (codesOf settings)")
       (simp_all add: checkCompliance_def)
  show ?thesis
  proof (cases "cds = []")
    case True
    with cds assms show ?thesis
      by (auto simp add: checkCompliance_def initialResults_def pushIssue_def)
  next
    case False
    from checkCompliance_resolved [OF assms(1) cds False] assms(2) show ?thesis
      by auto
  qed
qed

lemma checkCompliance_unresolved:
  assumes "getApplicableCodes env (countryOf settings) (codesOf settings) = Inr []"
  shows "checkCompliance env layoutData settings =
           Inr \<lparr>status = ''error'', issues = [configIssue (countryOf settings)], warnings = [],
                summary = \<lparr>totalChecks = 0, passed = 0, failed = 0, sum_warnings = 0\<rparr>\<rparr>"
  using assms by (simp add: checkCompliance_def initialResults_def pushIssue_def)

lemma unknown_country_ZZ:
  "checkCompliance env layoutData \<lparr>country = Some ''ZZ'', codes = cs, cs_accessibility = a\<rparr>
     = Inr \<lparr>status = ''error'', issues = [configIssue ''ZZ''], warnings = [],
            summary = \<lparr>totalChecks = 0, passed = 0, failed = 0, sum_warnings = 0\<rparr>\<rparr>"
proof -
  have "getApplicableCodes env ''ZZ'' ks = Inr []" for ks
    by (simp add: getApplicableCodes_def getProperty_def BUILDING_CODES_def
          objectPrototypeKeys_def)
  then show ?thesis
    using checkCompliance_unresolved
            [of env "\<lparr>country = Some ''ZZ'', codes = cs, cs_accessibility = a\<rparr>" layoutData]
    by (simp add: countryOf_def)
qed

lemma applicable_US_ADA:
  "getApplicableCodes env ''US'' [''ADA''] = Inr [\<lparr>key = ''ADA'', table = Some ADA\<rparr>]"
  by (simp add: getApplicableCodes_def getProperty_def BUILDING_CODES_def)

lemmas eval_defs =
  checkCompliance_def getApplicableCodes_def getProperty_def BUILDING_CODES_def
  objectPrototypeKeys_def countryOf_def codesOf_def runCodeChecks_def IBC_def ADA_def IRC_def
  NBC_def noRules_def corridorCheck_def roomAreaCheck_def checkAccessibilityCompliance_def
  accessibleRouteCheck_def turningSpaceCheck_def checkDoorWidths_def doorCheck_def
  requiredDoorWidth_def truthyNum_def countCheck_def countPassed_def countFailed_def
  countWarning_def pushIssue_def pushWarning_def initialResults_def determineStatus_def
  updateSummary_def configIssue_def corridorIssue_def roomAreaIssue_def
  accessibleRouteIssue_def turningSpaceWarning_def doorIssue_def inferRoomType_def
  requiresTurningSpace_def toLowerCase_def lowerChar_def char_of_eq_iff enumerate_eq_zip

subsection \<open>The final status\<close>



text \<open>
  Claim C10: every Issue of the rule checks is critical, so a call that resolves at
  least one rule table never returns the status \<open>warning\<close>: the status is
  \<open>compliant\<close> exactly when there is no Issue, whatever the Warnings, and
  \<open>non-compliant\<close> otherwise; \<open>error\<close> is the status of the configuration failure
  and of nothing else.
\<close>

theorem checkCompliance_never_warning:
  assumes "checkCompliance env layoutData settings = Inr r"
  shows "status r \<in> {''compliant'', ''non-compliant'', ''error''}
         \<and> (status r = ''error''
              \<longleftrightarrow> getApplicableCodes env (countryOf settings) (codesOf settings) = Inr [])
         \<and> (status r \<noteq> ''error''
              \<longrightarrow> (\<forall>i\<in>set (issues r). severity i = ''critical'')
                  \<and> (status r = ''compliant'' \<longleftrightarrow> issues r = []))"
proof -
  from assms obtain cds where cds: "getApplicableCodes env (countryOf settings) (codesOf settings) = Inr cds"
    by (cases "getApplicableCodes env (countryOf settings) (codesOf settings)")
       (simp_all add: checkCompliance_def)
  show ?thesis
  proof (cases "cds = []")
    case True
    with cds assms checkCompliance_unresolved [of env settings layoutData] show ?thesis
      by auto
  next
    case False
    from checkCompliance_resolved [OF assms cds False] obtain res where
      r: "r = updateSummary (determineStatus res)"
      and crit: "\<forall>i\<in>set (issues res). severity i = ''critical''"
      and stat: "status res = ''compliant''"
      by blast
    have s: "status r = (if issues res = [] then ''compliant'' else ''non-compliant'')"
    proof (cases "issues res = []")
      case True
      with stat show ?thesis by (simp add: r determineStatus_status)
    next
      case False
      then obtain i where "i \<in> set (issues res)" by (cases "issues res") auto
      with crit have "\<exists>i\<in>set (issues res). severity i = ''critical''" by blast
      with False show ?thesis by (simp add: r determineStatus_status)
    qed
    from s crit cds False show ?thesis
      by (auto simp add: r)
  qed
qed

theorem checkCompliance_never_warning_witness:
  "\<exists>r. checkCompliance exampleEnv exampleLayout
          \<lparr>country = None, codes = None, cs_accessibility = None\<rparr> = Inr r
       \<and> status r = ''non-compliant''
       \<and> status r \<in> {''compliant'', ''non-compliant'', ''error''}
       \<and> (\<forall>i\<in>set (issues r). severity i = ''critical'')"
proof -
  let ?s = "\<lparr>country = None, codes = None, cs_accessibility = None\<rparr>"
  have "\<exists>r. checkCompliance exampleEnv exampleLayout ?s = Inr r \<and> status r = ''non-compliant''"
    by (simp add: eval_defs exampleLayout_def exampleEnv_def Let_def)
  then obtain r where r: "checkCompliance exampleEnv exampleLayout ?s = Inr r"
    and s: "status r = ''non-compliant''" by blast
  from checkCompliance_never_warning [OF r] r s show ?thesis by auto
qed

subsection \<open>A narrow path under ADA\<close>

text \<open>
  Claim C3: a layout with a circulation path of width exactly 3 ft, checked under
  \<open>{country: "US", codes: ["ADA"]}\<close>, has a critical Issue whose code ends in
  \<open>_ACCESSIBLE_ROUTE\<close> or \<open>_CORRIDOR_WIDTH\<close> and the status \<open>non-compliant\<close>.
  At exactly 3 ft the path measures 36 inches, which is not below the ADA minimum of
  36: the corridor check and the door check both pass.
\<close>

theorem ada_three_foot_path_compliant:
  "\<exists>r. checkCompliance exampleEnv
          \<lparr>rooms = Some [],
           circulation = Some [\<lparr>path_from = ''a'', path_to = ''b'', path_width = 3\<rparr>]\<rparr>
          \<lparr>country = Some ''US'', codes = Some [''ADA''], cs_accessibility = None\<rparr> = Inr r
       \<and> issues r = [] \<and> status r = ''compliant''"
  by (simp add: eval_defs exampleEnv_def Let_def)

text \<open>
  Claim C3 as amended: a layout with a circulation path narrower than 3 ft, checked
  under \<open>{country: "US", codes: ["ADA"]}\<close>, has the critical Issue
  \<open>ADA_CORRIDOR_WIDTH\<close> and the status \<open>non-compliant\<close>.
\<close>

theorem ada_narrow_path_non_compliant:
  assumes "circulation layoutData = Some paths" and "p \<in> set paths" and "path_width p < 3"
  shows "\<exists>r. checkCompliance env layoutData
                \<lparr>country = Some ''US'', codes = Some [''ADA''], cs_accessibility = a\<rparr> = Inr r
           \<and> status r = ''non-compliant''
           \<and> (\<exists>i\<in>set (issues r). severity i = ''critical'' \<and> code i = ''ADA_CORRIDOR_WIDTH'')"
proof -
  define cd where "cd = \<lparr>key = ''ADA'', table = Some ADA\<rparr>"
  define res where "res = fold (doorCheck env ''ADA'' (rules ADA)) (enumerate 0 paths)
            (fold (corridorCheck env ''ADA'' 36) (enumerate 0 paths) initialResults)"
  have "table cd = Some ADA" "key cd = ''ADA''" by (simp_all add: cd_def)
  then have run: "runCodeChecks env layoutData cd initialResults = Inr res"
    using runCodeChecks_ADA [of cd layoutData paths env initialResults] assms(1)
    by (simp add: res_def)
  from assms(2) obtain n where "n < length paths" "paths ! n = p"
    by (auto simp add: in_set_conv_nth)
  then have n: "(n, p) \<in> set (enumerate 0 paths)"
    by (simp add: in_set_enumerate_eq)
  define i where "i = corridorIssue env ''ADA'' 36 (n, p)"
  have "path_width (snd (n, p)) * 12 < 36" using assms(3) by simp
  with n have "(n, p) \<in> set (filter (\<lambda>ip. path_width (snd ip) * 12 < 36) (enumerate 0 paths))"
    by simp
  then have mem: "i \<in> set (issues res)"
    unfolding res_def i_def door_fold corridor_fold by simp
  have props: "severity i = ''critical''" "code i = ''ADA_CORRIDOR_WIDTH''"
    by (simp_all add: i_def corridorIssue_def Let_def)
  have chk: "checkCompliance env layoutData
                \<lparr>country = Some ''US'', codes = Some [''ADA''], cs_accessibility = a\<rparr>
             = Inr (updateSummary (determineStatus res))"
    using run by (simp add: checkCompliance_def countryOf_def codesOf_def applicable_US_ADA cd_def)
  have "status (updateSummary (determineStatus res)) = ''non-compliant''"
    using mem props(1) by (auto simp add: determineStatus_status)
  with chk mem props show ?thesis by auto
qed

theorem ada_narrow_path_non_compliant_witness:
  "circulation exampleLayout = Some [\<lparr>path_from = ''r1'', path_to = ''r2'', path_width = 2\<rparr>]
   \<and> path_width \<lparr>path_from = ''r1'', path_to = ''r2'', path_width = 2\<rparr> < 3
   \<and> (\<exists>r. checkCompliance exampleEnv exampleLayout
              \<lparr>country = Some ''US'', codes = Some [''ADA''], cs_accessibility = None\<rparr> = Inr r
          \<and> status r = ''non-compliant''
          \<and> (\<exists>i\<in>set (issues r). severity i = ''critical'' \<and> code i = ''ADA_CORRIDOR_WIDTH''))"
proof -
  let ?p = "\<lparr>path_from = ''r1'', path_to = ''r2'', path_width = 2\<rparr>"
  have c: "circulation exampleLayout = Some [?p]" by (simp add: exampleLayout_def)
  have m: "?p \<in> set [?p]" by simp
  have w: "path_width ?p < 3" by simp
  from ada_narrow_path_non_compliant [OF c m w, of exampleEnv None] c w show ?thesis
    by blast
qed

subsection \<open>The configuration error\<close>

text \<open>
  Claim C7: with an unknown country, or a known country for which none of the
  requested codes exists, \<open>checkCompliance\<close> returns the status \<open>error\<close> with the
  single Issue \<open>CONFIG_ERROR\<close>, as data and never as an exception.
  The code does so whenever the lookup finds nothing (\<open>checkCompliance_unresolved\<close>),
  as for the country \<open>ZZ\<close> (\<open>unknown_country_ZZ\<close>).
  The lookup is a property read, though, and it finds the members that the country
  object inherits from \<open>Object.prototype\<close>: the code key \<open>toString\<close> is no
  building code of the country US, yet it passes the filter, the code data has no
  rules, and \<open>runCodeChecks\<close> throws.
\<close>

theorem inherited_code_key_throws:
  "checkCompliance env layoutData
     \<lparr>country = Some ''US'', codes = Some [''toString''], cs_accessibility = a\<rparr>
   = Inl TypeError"
  by (simp add: checkCompliance_def countryOf_def codesOf_def getApplicableCodes_def
        getProperty_def BUILDING_CODES_def objectPrototypeKeys_def runCodeChecks_def)

section \<open>Layouts with an absent field\<close>

text \<open>
  Claim C5: on a layout whose \<open>rooms\<close> or \<open>circulation\<close> field is absent, every
  public operation (\<open>checkCompliance\<close> and each export encoder) returns a normal
  result; the missing items are skipped.
  The corridor, room-area and accessibility checks and the helpers
  \<open>calculateBounds\<close> and \<open>calculateTotalArea\<close> test the field before they read it.
  \<open>checkDoorWidths\<close> and the \<open>forEach\<close> loops of the encoders do not: under the
  default codes a layout without \<open>circulation\<close> makes \<open>checkCompliance\<close> throw,
  and the DXF, SVG, PDF and CSV encoders throw on a layout without \<open>rooms\<close> (the
  first three also without \<open>circulation\<close>).
\<close>

theorem missing_field_throws:
  "checkCompliance env \<lparr>rooms = Some rms, circulation = None\<rparr>
      \<lparr>country = None, codes = None, cs_accessibility = a\<rparr> = Inl TypeError
   \<and> exportToDXF env \<lparr>rooms = None, circulation = Some ps\<rparr> dxfOpts = Inl TypeError
   \<and> exportToDXF env \<lparr>rooms = Some rms, circulation = None\<rparr> dxfOpts = Inl TypeError
   \<and> exportToSVG env \<lparr>rooms = None, circulation = Some ps\<rparr> svgOpts = Inl TypeError
   \<and> exportToSVG env \<lparr>rooms = Some rms, circulation = None\<rparr> svgOpts = Inl TypeError
   \<and> exportToPDF env \<lparr>rooms = None, circulation = Some ps\<rparr> info pdfOpts = Inl TypeError
   \<and> exportToPDF env \<lparr>rooms = Some rms, circulation = None\<rparr> info pdfOpts = Inl TypeError
   \<and> exportRoomScheduleToCSV env (rooms \<lparr>rooms = None, circulation = Some ps\<rparr>) = Inl TypeError"
proof -
  have "checkCompliance env \<lparr>rooms = Some rms, circulation = None\<rparr>
      \<lparr>country = None, codes = None, cs_accessibility = a\<rparr> = Inl TypeError"
    by (simp add: checkCompliance_def countryOf_def codesOf_def getApplicableCodes_def
          getProperty_def BUILDING_CODES_def runCodeChecks_def checkDoorWidths_def Let_def)
  moreover have "exportToDXF env \<lparr>rooms = None, circulation = Some ps\<rparr> dxfOpts = Inl TypeError"
    "exportToDXF env \<lparr>rooms = Some rms, circulation = None\<rparr> dxfOpts = Inl TypeError"
    by (simp_all add: exportToDXF_def Let_def)
  moreover have svg: "exportToSVG env \<lparr>rooms = None, circulation = Some ps\<rparr> o1 = Inl TypeError"
    "exportToSVG env \<lparr>rooms = Some rms, circulation = None\<rparr> o1 = Inl TypeError" for o1
    by (simp_all add: exportToSVG_def Let_def)
  moreover have "exportToPDF env \<lparr>rooms = None, circulation = Some ps\<rparr> info pdfOpts = Inl TypeError"
    "exportToPDF env \<lparr>rooms = Some rms, circulation = None\<rparr> info pdfOpts = Inl TypeError"
    by (simp_all add: exportToPDF_def svg Let_def)
  moreover have "exportRoomScheduleToCSV env (rooms \<lparr>rooms = None, circulation = Some ps\<rparr>) = Inl TypeError"
    by (simp add: exportRoomScheduleToCSV_def)
  ultimately show ?thesis by blast
qed

section \<open>Paths between rooms that do not exist\<close>

text \<open>
  Claim C6: a circulation path whose \<open>from\<close> or \<open>to\<close> id matches no room is skipped
  by all three components: it contributes nothing to any metric, it generates no
  compliance check, Issue or Warning, and it produces no geometry in any export.
  The compliance engine and the accessibility score never look the endpoints up:
  they check the width of every path. A layout whose only path joins two missing
  rooms gets two ADA checks and two Issues, and the path lowers the accessibility
  score from 100 to 0.
\<close>

theorem dangling_path_is_checked:
  "(\<exists>r. checkCompliance exampleEnv danglingLayout
           \<lparr>country = Some ''US'', codes = Some [''ADA''], cs_accessibility = None\<rparr> = Inr r
        \<and> map code (issues r) = [''ADA_CORRIDOR_WIDTH'', ''ADA_DOOR_WIDTH'']
        \<and> passed (summary r) + failed (summary r) = 2)
   \<and> calculateAccessibilityScore exampleEnv danglingLayout None = Fin 0
   \<and> calculateAccessibilityScore exampleEnv (danglingLayout\<lparr>circulation := Some []\<rparr>) None = Fin 100"
  by (simp add: eval_defs danglingLayout_def exampleEnv_def Let_def
        calculateAccessibilityScore_def hasAdequateAccess_def
        jmul_def jdiv_def jround_def signedZero_def signedInf_def)

lemma unresolved_circulationStep:
  "\<not> (findRoom rs (path_from p) \<noteq> None \<and> findRoom rs (path_to p) \<noteq> None)
   \<Longrightarrow> circulationStep env rs p acc = acc"
  by (auto simp add: circulationStep_def split: option.splits)

lemma fold_filter_skip:
  assumes "\<And>x acc. \<not> P x \<Longrightarrow> f x acc = acc"
  shows "fold f (filter P xs) acc = fold f xs acc"
  by (induction xs arbitrary: acc) (simp_all add: assms)

lemma concat_filter_skip:
  assumes "\<And>x. \<not> P x \<Longrightarrow> f x = []"
  shows "concat (map f (filter P xs)) = concat (map f xs)"
  by (induction xs) (simp_all add: assms)

lemma unresolved_dxfPath:
  "\<not> (findRoom rs (path_from p) \<noteq> None \<and> findRoom rs (path_to p) \<noteq> None)
   \<Longrightarrow> dxfPath env scale rs p = []"
  by (auto simp add: dxfPath_def split: option.splits)

lemma unresolved_svgPath:
  "\<not> (findRoom rs (path_from p) \<noteq> None \<and> findRoom rs (path_to p) \<noteq> None)
   \<Longrightarrow> svgPath env scale rs p = []"
  by (auto simp add: svgPath_def split: option.splits)

text \<open>
  Claim C6 as amended: a circulation path whose \<open>from\<close> or \<open>to\<close> id matches no room
  is skipped by the circulation efficiency (the daylight, energy and space scores
  read no path at all) and by the DXF, SVG and PDF encoders: on a layout that has
  both fields, each of them returns what it returns for the layout without these
  paths, and the encoders return a text, not an error.
\<close>

theorem dangling_paths_skipped:
  fixes l :: layoutData
  assumes "rooms l = Some rs" and "circulation l = Some ps"
  defines "l' \<equiv> l\<lparr>circulation := Some (filter
      (\<lambda>p. findRoom rs (path_from p) \<noteq> None \<and> findRoom rs (path_to p) \<noteq> None) ps)\<rparr>"
  shows "calculateCirculationEfficiency env l' = calculateCirculationEfficiency env l
    \<and> calculateDaylightHours env l' orientation = calculateDaylightHours env l orientation
    \<and> calculateEnergyEfficiency env l' = calculateEnergyEfficiency env l
    \<and> calculateSpaceUtilization env l' = calculateSpaceUtilization env l
    \<and> exportToDXF env l' dxfOpts = exportToDXF env l dxfOpts
    \<and> exportToSVG env l' svgOpts = exportToSVG env l svgOpts
    \<and> exportToPDF env l' info pdfOpts = exportToPDF env l info pdfOpts
    \<and> (\<exists>dxf svg pdf. exportToDXF env l dxfOpts = Inr dxf \<and> exportToSVG env l svgOpts = Inr svg
          \<and> exportToPDF env l info pdfOpts = Inr pdf)"
proof -
  define kept where "kept = filter
      (\<lambda>p. findRoom rs (path_from p) \<noteq> None \<and> findRoom rs (path_to p) \<noteq> None) ps"
  have r': "rooms l' = Some rs" using assms(1) by (simp add: l'_def)
  have c': "circulation l' = Some kept"
    by (simp add: l'_def kept_def)
  have f1: "fold (circulationStep env rs) kept acc = fold (circulationStep env rs) ps acc" for acc
    unfolding kept_def by (rule fold_filter_skip) (rule unresolved_circulationStep)
  have f2: "concat (map (dxfPath env scale rs) kept) = concat (map (dxfPath env scale rs) ps)"
    for scale
    unfolding kept_def by (rule concat_filter_skip) (rule unresolved_dxfPath)
  have f3: "concat (map (svgPath env scale rs) kept) = concat (map (svgPath env scale rs) ps)"
    for scale
    unfolding kept_def by (rule concat_filter_skip) (rule unresolved_svgPath)
  have circ: "calculateCirculationEfficiency env l' = calculateCirculationEfficiency env l"
    by (simp add: calculateCirculationEfficiency_def r' c' assms(1,2) f1)
  have day: "calculateDaylightHours env l' orientation = calculateDaylightHours env l orientation"
    by (simp add: calculateDaylightHours_def r' assms(1))
  have en: "calculateEnergyEfficiency env l' = calculateEnergyEfficiency env l"
    by (simp add: calculateEnergyEfficiency_def r' assms(1))
  have sp: "calculateSpaceUtilization env l' = calculateSpaceUtilization env l"
    by (simp add: calculateSpaceUtilization_def r' assms(1))
  have dxf: "exportToDXF env l' dxfOpts = exportToDXF env l dxfOpts"
    by (simp add: exportToDXF_def r' c' assms(1,2) f2 Let_def)
  have svg: "exportToSVG env l' o' = exportToSVG env l o'" for o'
    by (simp add: exportToSVG_def r' c' assms(1,2) f3 Let_def)
  have head: "pdfHead env l' i s = pdfHead env l i s" for i s
    by (simp add: pdfHead_def r' assms(1))
  have pdf: "exportToPDF env l' info pdfOpts = exportToPDF env l info pdfOpts"
    by (simp add: exportToPDF_def svg head Let_def split: sum.splits)
  have ex1: "\<exists>dxf. exportToDXF env l dxfOpts = Inr dxf"
    by (simp add: exportToDXF_def assms(1,2) Let_def)
  have ex2: "\<exists>svg. exportToSVG env l o' = Inr svg" for o'
    by (simp add: exportToSVG_def assms(1,2) Let_def)
  have ex3: "\<exists>pdf. exportToPDF env l info pdfOpts = Inr pdf"
    using ex2 [of "Some (noSvgOptions\<lparr>svg_width := Some 600, svg_height := Some 400,
                         backgroundColor := Some ''#ffffff''\<rparr>)"]
    by (auto simp add: exportToPDF_def Let_def)
  from circ day en sp dxf svg pdf ex1 ex2 ex3 show ?thesis by blast
qed

theorem dangling_paths_skipped_witness:
  "rooms danglingLayout = Some []
   \<and> circulation danglingLayout = Some [\<lparr>path_from = ''a'', path_to = ''b'', path_width = 2\<rparr>]
   \<and> calculateCirculationEfficiency exampleEnv (danglingLayout\<lparr>circulation := Some []\<rparr>)
        = calculateCirculationEfficiency exampleEnv danglingLayout
   \<and> exportToDXF exampleEnv (danglingLayout\<lparr>circulation := Some []\<rparr>) None
        = exportToDXF exampleEnv danglingLayout None
   \<and> exportToSVG exampleEnv (danglingLayout\<lparr>circulation := Some []\<rparr>) None
        = exportToSVG exampleEnv danglingLayout None"
proof -
  have r: "rooms danglingLayout = Some []"
    and c: "circulation danglingLayout = Some [\<lparr>path_from = ''a'', path_to = ''b'', path_width = 2\<rparr>]"
    by (simp_all add: danglingLayout_def)
  from dangling_paths_skipped [OF r c, of exampleEnv None None None None None] r c
  show ?thesis by (simp add: findRoom_def)
qed

section \<open>The JSON envelope\<close>

text \<open>
  The parser reads back what the printer writes: \<open>parseChars\<close> undoes
  \<open>QuoteJSONString\<close> character by character, the text of a number is read up to
  its end, and \<open>parseValue\<close> reads a printed value, whatever its indentation and
  whatever follows it, into the value built property by property.
\<close>

subsection \<open>Strings\<close>

lemma hex_table:
  "map (\<lambda>n. hexValue (hexDigit n)) [0 ..< 16] = map Some [0 ..< 16]"
  by (simp add: upt_conv_Cons_Cons hexDigit_def hexValue_def isDigit_def
        upt_rec [of _ "numeral k" for k])

lemma hexValue_hexDigit: "n < 16 \<Longrightarrow> hexValue (hexDigit n) = Some n"
proof -
  assume n: "n < 16"
  have "map (\<lambda>n. hexValue (hexDigit n)) [0 ..< 16] ! n = map Some [0 ..< 16] ! n"
    by (simp only: hex_table)
  then show ?thesis using n by (simp del: upt_conv_Cons_Cons)
qed

lemma decode_unicodeEscape:
  assumes "of_char c < (32 :: nat)"
  shows "decodeHex4 [CHR ''0'', CHR ''0'', hexDigit (of_char c div 16), hexDigit (of_char c mod 16)]
           = Some c"
proof -
  have a: "hexValue (hexDigit (of_char c div 16)) = Some (of_char c div 16)"
    using assms by (intro hexValue_hexDigit) simp
  have b: "hexValue (hexDigit (of_char c mod 16)) = Some (of_char c mod 16)"
    by (intro hexValue_hexDigit) simp
  have z: "hexValue (CHR ''0'') = Some 0" by (simp add: hexValue_def isDigit_def)
  have "char_of ((of_char c :: nat) div 16 * 16 + of_char c mod 16) = c" by simp
  then show ?thesis by (simp add: decodeHex4_def a b z)
qed

declare parseChars.simps [simp del]

lemma parseChars_end: "parseChars (quoteMark # s) = Some ([], s)"
  by (subst parseChars.simps) simp

lemma parseChars_plain:
  assumes "c \<noteq> quoteMark" "c \<noteq> backslash" "\<not> of_char c < (32 :: nat)"
  shows "parseChars (c # s)
           = (case parseChars s of None \<Rightarrow> None | Some (str, r) \<Rightarrow> Some (c # str, r))"
  by (subst parseChars.simps) (simp add: assms)

lemma parseChars_escape:
  assumes "unescape e = Some ch" "e \<noteq> CHR ''u''"
  shows "parseChars (backslash # e # s)
           = (case parseChars s of None \<Rightarrow> None | Some (str, r) \<Rightarrow> Some (ch # str, r))"
  by (subst parseChars.simps) (simp add: assms quoteMark_def backslash_def)

lemma parseChars_unicode:
  assumes "decodeHex4 [a, b, c, d] = Some ch"
  shows "parseChars (backslash # CHR ''u'' # a # b # c # d # s)
           = (case parseChars s of None \<Rightarrow> None | Some (str, r) \<Rightarrow> Some (ch # str, r))"
  by (subst parseChars.simps) (simp add: assms quoteMark_def backslash_def)

lemma parseChars_quoteChar:
  "parseChars (quoteChar c @ s)
     = (case parseChars s of None \<Rightarrow> None | Some (str, r) \<Rightarrow> Some (c # str, r))"
proof -
  consider (b) "c = CHR 0x08" | (t) "c = CHR 0x09" | (n) "c = CHR 0x0A" | (f) "c = CHR 0x0C"
    | (r) "c = CHR 0x0D" | (q) "c = quoteMark" | (s) "c = backslash"
    | (u) "c \<noteq> CHR 0x08" "c \<noteq> CHR 0x09" "c \<noteq> CHR 0x0A" "c \<noteq> CHR 0x0C" "c \<noteq> CHR 0x0D"
          "c \<noteq> quoteMark" "c \<noteq> backslash" "of_char c < (32 :: nat)"
    | (p) "c \<noteq> CHR 0x08" "c \<noteq> CHR 0x09" "c \<noteq> CHR 0x0A" "c \<noteq> CHR 0x0C" "c \<noteq> CHR 0x0D"
          "c \<noteq> quoteMark" "c \<noteq> backslash" "\<not> of_char c < (32 :: nat)"
    by blast
  then show ?thesis
  proof cases
    case b
    have "quoteChar c = [backslash, CHR ''b'']" by (simp add: b quoteChar_def)
    then show ?thesis
      using parseChars_escape [of "CHR ''b''" c s] by (simp add: b unescape_def quoteMark_def backslash_def)
  next
    case t
    have "quoteChar c = [backslash, CHR ''t'']" by (simp add: t quoteChar_def)
    then show ?thesis
      using parseChars_escape [of "CHR ''t''" c s] by (simp add: t unescape_def quoteMark_def backslash_def)
  next
    case n
    have "quoteChar c = [backslash, CHR ''n'']" by (simp add: n quoteChar_def)
    then show ?thesis
      using parseChars_escape [of "CHR ''n''" c s] by (simp add: n unescape_def quoteMark_def backslash_def)
  next
    case f
    have "quoteChar c = [backslash, CHR ''f'']" by (simp add: f quoteChar_def)
    then show ?thesis
      using parseChars_escape [of "CHR ''f''" c s] by (simp add: f unescape_def quoteMark_def backslash_def)
  next
    case r
    have "quoteChar c = [backslash, CHR ''r'']" by (simp add: r quoteChar_def)
    then show ?thesis
      using parseChars_escape [of "CHR ''r''" c s] by (simp add: r unescape_def quoteMark_def backslash_def)
  next
    case q
    have "quoteChar c = [backslash, quoteMark]" by (simp add: q quoteChar_def quoteMark_def)
    then show ?thesis
      using parseChars_escape [of quoteMark c s] by (simp add: q unescape_def quoteMark_def)
  next
    case s
    have "quoteChar c = [backslash, backslash]"
      by (simp add: s quoteChar_def quoteMark_def backslash_def)
    then show ?thesis
      using parseChars_escape [of backslash c] by (simp add: s unescape_def quoteMark_def backslash_def)
  next
    case u
    have "quoteChar c = unicodeEscape c" using u by (simp add: quoteChar_def)
    then show ?thesis
      using parseChars_unicode [OF decode_unicodeEscape [OF u(8)]]
      by (simp add: unicodeEscape_def)
  next
    case p
    have "quoteChar c = [c]" using p by (simp add: quoteChar_def)
    then show ?thesis using parseChars_plain [OF p(6,7,8)] by simp
  qed
qed

lemma parseChars_quoted:
  "parseChars (concat (map quoteChar s) @ quoteMark # rest) = Some (s, rest)"
  by (induction s) (simp_all add: parseChars_quoteChar parseChars_end)

subsection \<open>Values\<close>

lemma skipWhitespace_append:
  "list_all isWhitespace w \<Longrightarrow> skipWhitespace (w @ s) = skipWhitespace s"
  by (induction w) (simp_all add: skipWhitespace_def)

lemma skipWhitespace_Cons: "\<not> isWhitespace c \<Longrightarrow> skipWhitespace (c # s) = c # s"
  by (simp add: skipWhitespace_def)

lemma parseValue_whitespace:
  "list_all isWhitespace w \<Longrightarrow> parseValue env n (w @ s) = parseValue env n s"
  by (cases n) (simp_all add: skipWhitespace_append)

lemma parseMembers_whitespace:
  "list_all isWhitespace w \<Longrightarrow> parseMembers env n (w @ s) acc = parseMembers env n s acc"
  by (cases n) (simp_all add: skipWhitespace_append)

lemma isDigit_opens: "isDigit c \<or> c = CHR ''-'' \<Longrightarrow> opensValue c"
  by (auto simp add: opensValue_def isDigit_def isWhitespace_def)

lemma serialized_head:
  assumes "list_all (readsBack env) (numbers v)"
  shows "\<exists>c t. serializeJSONProperty (numToString env) indent v = c # t \<and> opensValue c"
proof (cases v)
  case (JNumber x)
  then have "readsBack env x" using assms by simp
  then show ?thesis
    using isDigit_opens by (auto simp add: JNumber readsBack_def split: list.splits)
next
  case (JString s)
  then show ?thesis
    by (simp add: quoteJSONString_def quoteMark_def opensValue_def isWhitespace_def)
next
  case (JArray xs)
  then show ?thesis by (simp add: opensValue_def isWhitespace_def)
next
  case (JObject ms)
  then show ?thesis by (simp add: opensValue_def isWhitespace_def)
qed (simp_all add: opensValue_def isWhitespace_def)

lemma parseValue_literal:
  "parseValue env (Suc n) (''null'' @ rest) = Some (JNull, rest)"
  "parseValue env (Suc n) (''true'' @ rest) = Some (JBool True, rest)"
  "parseValue env (Suc n) (''false'' @ rest) = Some (JBool False, rest)"
  by (simp_all add: skipWhitespace_def isWhitespace_def quoteMark_def isDigit_def)

lemma parseValue_string:
  "parseValue env (Suc n) (quoteJSONString s @ rest) = Some (JString s, rest)"
proof -
  have "skipWhitespace (quoteJSONString s @ rest)
          = quoteMark # concat (map quoteChar s) @ quoteMark # rest"
    by (simp add: quoteJSONString_def skipWhitespace_def isWhitespace_def quoteMark_def)
  then show ?thesis
    by (simp add: parseChars_quoted) (simp add: quoteMark_def)
qed

lemma number_lexeme:
  assumes "list_all isNumberChar t" and "rest = [] \<or> \<not> isNumberChar (hd rest)"
  shows "takeWhile isNumberChar (t @ rest) = t" and "dropWhile isNumberChar (t @ rest) = rest"
proof -
  have r: "takeWhile isNumberChar rest = []" "dropWhile isNumberChar rest = rest"
    using assms(2) by (cases rest; simp)+
  show "takeWhile isNumberChar (t @ rest) = t" "dropWhile isNumberChar (t @ rest) = rest"
    using assms(1) r by (induction t) simp_all
qed

lemma parseValue_number:
  assumes "readsBack env x" and "rest = [] \<or> \<not> isNumberChar (hd rest)"
  shows "parseValue env (Suc n) (numToString env x @ rest) = Some (JNumber x, rest)"
proof -
  obtain c t where ct: "numToString env x = c # t" and c: "isDigit c \<or> c = CHR ''-''"
    and t: "list_all isNumberChar t" and p: "parseNumber env (c # t) = Some x"
    using assms(1) by (auto simp add: readsBack_def split: list.splits)
  have nc: "isNumberChar c" using c by (auto simp add: isNumberChar_def)
  have o: "opensValue c" using c by (rule isDigit_opens)
  have "c \<noteq> CHR ''{''" "c \<noteq> CHR ''[''" "c \<noteq> quoteMark"
    using c by (auto simp add: isDigit_def quoteMark_def)
  moreover have "skipWhitespace (c # t @ rest) = c # t @ rest"
    using o by (simp add: skipWhitespace_Cons opensValue_def)
  moreover have "takeWhile isNumberChar (c # t @ rest) = c # t"
    "dropWhile isNumberChar (c # t @ rest) = rest"
    using number_lexeme [of "c # t" rest] nc t assms(2) by simp_all
  ultimately show ?thesis using c p by (simp add: ct)
qed

lemma parseValue_array_empty:
  "parseValue env (Suc n) (''[]'' @ rest) = Some (JArray [], rest)"
  by (simp add: skipWhitespace_def isWhitespace_def)

lemma parseValue_object_empty:
  "parseValue env (Suc n) (''{}'' @ rest) = Some (JObject [], rest)"
  by (simp add: skipWhitespace_def isWhitespace_def)

lemma parseValue_array:
  assumes "opensValue c" and "list_all isWhitespace w"
  shows "parseValue env (Suc n) (CHR ''['' # w @ c # t)
           = (case parseElements env n (w @ c # t) of
                None \<Rightarrow> None | Some (elements, r) \<Rightarrow> Some (JArray elements, r))"
proof -
  have a: "skipWhitespace (CHR ''['' # w @ c # t) = CHR ''['' # w @ c # t"
    by (simp add: skipWhitespace_def isWhitespace_def)
  have b: "skipWhitespace (w @ c # t) = c # t"
    using assms by (simp add: skipWhitespace_append skipWhitespace_Cons opensValue_def)
  show ?thesis using assms(1) by (simp add: a b opensValue_def)
qed

lemma parseValue_object:
  assumes "opensValue c" and "list_all isWhitespace w"
  shows "parseValue env (Suc n) (CHR ''{'' # w @ c # t)
           = (case parseMembers env n (w @ c # t) [] of
                None \<Rightarrow> None | Some (properties, r) \<Rightarrow> Some (JObject properties, r))"
proof -
  have a: "skipWhitespace (CHR ''{'' # w @ c # t) = CHR ''{'' # w @ c # t"
    by (simp add: skipWhitespace_def isWhitespace_def)
  have b: "skipWhitespace (w @ c # t) = c # t"
    using assms by (simp add: skipWhitespace_append skipWhitespace_Cons opensValue_def)
  show ?thesis using assms(1) by (simp add: a b opensValue_def)
qed

lemma parseElements_last:
  assumes "parseValue env n s = Some (v, r)" and "skipWhitespace r = CHR '']'' # r'"
  shows "parseElements env (Suc n) s = Some ([v], r')"
  using assms by simp

lemma parseElements_more:
  assumes "parseValue env n s = Some (v, r)" and "skipWhitespace r = CHR '','' # r'"
    and "parseElements env n r' = Some (vs, r'')"
  shows "parseElements env (Suc n) s = Some (v # vs, r'')"
  using assms by simp

lemma parseMembers_last:
  assumes "skipWhitespace s = quoteMark # t" and "parseChars t = Some (k, r)"
    and "skipWhitespace r = CHR '':'' # r1" and "parseValue env n r1 = Some (v, r2)"
    and "skipWhitespace r2 = CHR ''}'' # r3"
  shows "parseMembers env (Suc n) s acc = Some (defineProperty k v acc, r3)"
  using assms by simp

lemma parseMembers_more:
  assumes "skipWhitespace s = quoteMark # t" and "parseChars t = Some (k, r)"
    and "skipWhitespace r = CHR '':'' # r1" and "parseValue env n r1 = Some (v, r2)"
    and "skipWhitespace r2 = CHR '','' # r3"
  shows "parseMembers env (Suc n) s acc = parseMembers env n r3 (defineProperty k v acc)"
  using assms by simp

lemma newline_facts:
  "isWhitespace (CHR 0x0A)" "\<not> isNumberChar (CHR 0x0A)" "\<not> isNumberChar (CHR '','')"
  "\<not> isWhitespace (CHR '']'')" "\<not> isWhitespace (CHR ''}'')" "\<not> isWhitespace (CHR '','')"
  "\<not> isWhitespace (CHR '':'')" "isWhitespace (CHR 0x20)" "\<not> isWhitespace quoteMark"
  by (simp_all add: isWhitespace_def isNumberChar_def isDigit_def quoteMark_def)

lemma parseElements_serialized:
  assumes "\<And>x n rest. x \<in> set xs \<Longrightarrow> fuelOf x \<le> n
              \<Longrightarrow> rest = [] \<or> \<not> isNumberChar (hd rest)
              \<Longrightarrow> parseValue env n (serializeJSONProperty num ind' x @ rest)
                    = Some (rebuild x, rest)"
    and "xs \<noteq> []" and "list_all isWhitespace ind" and "list_all isWhitespace ind'"
    and "sum_list (map (\<lambda>v. Suc (fuelOf v)) xs) \<le> n"
  shows "parseElements env n
           (CHR 0x0A # ind' @ joinWith (CHR '','' # CHR 0x0A # ind')
                                (map (serializeJSONProperty num ind') xs)
              @ CHR 0x0A # ind @ CHR '']'' # rest)
         = Some (map rebuild xs, rest)"
  using assms(2,1,5)
proof (induction xs arbitrary: n rule: list_nonempty_induct)
  case (single x)
  then obtain m where n: "n = Suc m" and m: "fuelOf x \<le> m" by (cases n) simp_all
  have w: "list_all isWhitespace (CHR 0x0A # ind')" using assms(4) newline_facts by simp
  have v: "parseValue env m (serializeJSONProperty num ind' x @ CHR 0x0A # ind @ CHR '']'' # rest)
             = Some (rebuild x, CHR 0x0A # ind @ CHR '']'' # rest)"
    by (rule single.prems(1)) (simp_all add: m newline_facts)
  have v': "parseValue env m
              ((CHR 0x0A # ind') @ serializeJSONProperty num ind' x
                 @ CHR 0x0A # ind @ CHR '']'' # rest)
             = Some (rebuild x, CHR 0x0A # ind @ CHR '']'' # rest)"
    unfolding parseValue_whitespace [OF w] by (rule v)
  have s: "skipWhitespace (CHR 0x0A # ind @ CHR '']'' # rest) = CHR '']'' # rest"
    using skipWhitespace_append [of "CHR 0x0A # ind" "CHR '']'' # rest"] assms(3) newline_facts
    by (simp add: skipWhitespace_Cons)
  show ?case
    unfolding n using parseElements_last [OF v' s] by simp
next
  case (cons x xs)
  then obtain m where n: "n = Suc m" and m: "fuelOf x \<le> m"
    and ms: "sum_list (map (\<lambda>v. Suc (fuelOf v)) xs) \<le> m"
    by (cases n) simp_all
  obtain y ys where xs: "xs = y # ys" using cons.hyps by (cases xs) simp_all
  define tail where "tail = CHR 0x0A # ind' @ joinWith (CHR '','' # CHR 0x0A # ind')
                                (map (serializeJSONProperty num ind') xs)
              @ CHR 0x0A # ind @ CHR '']'' # rest"
  have w: "list_all isWhitespace (CHR 0x0A # ind')" using assms(4) newline_facts by simp
  have v: "parseValue env m (serializeJSONProperty num ind' x @ CHR '','' # tail)
             = Some (rebuild x, CHR '','' # tail)"
    by (rule cons.prems(1)) (simp_all add: m newline_facts)
  have v': "parseValue env m
              ((CHR 0x0A # ind') @ serializeJSONProperty num ind' x @ CHR '','' # tail)
             = Some (rebuild x, CHR '','' # tail)"
    unfolding parseValue_whitespace [OF w] by (rule v)
  have s: "skipWhitespace (CHR '','' # tail) = CHR '','' # tail"
    by (simp add: skipWhitespace_Cons newline_facts)
  have r: "parseElements env m tail = Some (map rebuild xs, rest)"
    unfolding tail_def by (rule cons.IH) (use cons.prems(1) ms in simp_all)
  have "parseElements env (Suc m)
          ((CHR 0x0A # ind') @ serializeJSONProperty num ind' x @ CHR '','' # tail)
        = Some (rebuild x # map rebuild xs, rest)"
    by (rule parseElements_more [OF v' s r])
  then show ?case by (simp add: n xs tail_def)
qed

lemma member_text:
  "\<exists>t. (quoteJSONString k @ '': '' @ body) = quoteMark # t
       \<and> parseChars t = Some (k, CHR '':'' # CHR 0x20 # body)"
  by (simp add: quoteJSONString_def parseChars_quoted)

lemma parseMembers_serialized:
  assumes "\<And>k x n rest. (k, x) \<in> set ms \<Longrightarrow> fuelOf x \<le> n
              \<Longrightarrow> rest = [] \<or> \<not> isNumberChar (hd rest)
              \<Longrightarrow> parseValue env n (serializeJSONProperty num ind' x @ rest)
                    = Some (rebuild x, rest)"
    and "ms \<noteq> []" and "list_all isWhitespace ind" and "list_all isWhitespace ind'"
    and "sum_list (map (\<lambda>(k, v). Suc (fuelOf v)) ms) \<le> n"
  shows "parseMembers env n
           (CHR 0x0A # ind' @ joinWith (CHR '','' # CHR 0x0A # ind')
                                (map (\<lambda>(k, v). quoteJSONString k @ '': ''
                                        @ serializeJSONProperty num ind' v) ms)
              @ CHR 0x0A # ind @ CHR ''}'' # rest) acc
         = Some (foldl (\<lambda>acc (k, v). defineProperty k (rebuild v) acc) acc ms, rest)"
  using assms(2,1,5)
proof (induction ms arbitrary: n acc rule: list_nonempty_induct)
  case (single p)
  obtain k x where p: "p = (k, x)" by (cases p)
  from single obtain m where n: "n = Suc m" and m: "fuelOf x \<le> m"
    by (cases n) (simp_all add: p)
  define after where "after = CHR 0x0A # ind @ CHR ''}'' # rest"
  obtain t where t: "quoteJSONString k @ '': '' @ serializeJSONProperty num ind' x @ after
                       = quoteMark # t"
    and c: "parseChars t = Some (k, CHR '':'' # CHR 0x20 # serializeJSONProperty num ind' x @ after)"
    using member_text [of k "serializeJSONProperty num ind' x @ after"] by auto
  have w: "list_all isWhitespace (CHR 0x0A # ind')" using assms(4) newline_facts by simp
  have s0: "skipWhitespace ((CHR 0x0A # ind') @ quoteJSONString k @ '': ''
                @ serializeJSONProperty num ind' x @ after) = quoteMark # t"
    unfolding skipWhitespace_append [OF w] t by (simp add: skipWhitespace_Cons newline_facts)
  have s1: "skipWhitespace (CHR '':'' # CHR 0x20 # serializeJSONProperty num ind' x @ after)
              = CHR '':'' # CHR 0x20 # serializeJSONProperty num ind' x @ after"
    by (simp add: skipWhitespace_Cons newline_facts)
  have v: "parseValue env m (serializeJSONProperty num ind' x @ after)
             = Some (rebuild x, after)"
    by (rule single.prems(1) [of k]) (simp_all add: p m after_def newline_facts)
  have v': "parseValue env m ([CHR 0x20] @ serializeJSONProperty num ind' x @ after)
             = Some (rebuild x, after)"
    using parseValue_whitespace [of "[CHR 0x20]"] v by (simp add: newline_facts)
  have s2: "skipWhitespace after = CHR ''}'' # rest"
    unfolding after_def
    using skipWhitespace_append [of "CHR 0x0A # ind" "CHR ''}'' # rest"] assms(3) newline_facts
    by (simp add: skipWhitespace_Cons)
  have "parseMembers env (Suc m)
          ((CHR 0x0A # ind') @ quoteJSONString k @ '': ''
                @ serializeJSONProperty num ind' x @ after) acc
        = Some (defineProperty k (rebuild x) acc, rest)"
    using v' by (intro parseMembers_last [OF s0 c s1 _ s2]) simp
  moreover have "CHR 0x0A # ind' @ joinWith (CHR '','' # CHR 0x0A # ind')
                                (map (\<lambda>(k, v). quoteJSONString k @ '': ''
                                        @ serializeJSONProperty num ind' v) [p])
              @ CHR 0x0A # ind @ CHR ''}'' # rest
        = (CHR 0x0A # ind') @ quoteJSONString k @ '': ''
                @ serializeJSONProperty num ind' x @ after"
    by (simp add: p after_def)
  moreover have "foldl (\<lambda>acc (k, v). defineProperty k (rebuild v) acc) acc [p]
                   = defineProperty k (rebuild x) acc"
    by (simp add: p)
  ultimately show ?case unfolding n by (simp only:)
next
  case (cons p ms)
  obtain k x where p: "p = (k, x)" by (cases p)
  from cons obtain m where n: "n = Suc m" and m: "fuelOf x \<le> m"
    and ms: "sum_list (map (\<lambda>(k, v). Suc (fuelOf v)) ms) \<le> m"
    by (cases n) (simp_all add: p)
  obtain q qs where qs: "ms = q # qs" using cons.hyps by (cases ms) simp_all
  define tail where "tail = CHR 0x0A # ind' @ joinWith (CHR '','' # CHR 0x0A # ind')
                                (map (\<lambda>(k, v). quoteJSONString k @ '': ''
                                        @ serializeJSONProperty num ind' v) ms)
              @ CHR 0x0A # ind @ CHR ''}'' # rest"
  define after where "after = CHR '','' # tail"
  obtain t where t: "quoteJSONString k @ '': '' @ serializeJSONProperty num ind' x @ after
                       = quoteMark # t"
    and c: "parseChars t = Some (k, CHR '':'' # CHR 0x20 # serializeJSONProperty num ind' x @ after)"
    using member_text [of k "serializeJSONProperty num ind' x @ after"] by auto
  have w: "list_all isWhitespace (CHR 0x0A # ind')" using assms(4) newline_facts by simp
  have s0: "skipWhitespace ((CHR 0x0A # ind') @ quoteJSONString k @ '': ''
                @ serializeJSONProperty num ind' x @ after) = quoteMark # t"
    unfolding skipWhitespace_append [OF w] t by (simp add: skipWhitespace_Cons newline_facts)
  have s1: "skipWhitespace (CHR '':'' # CHR 0x20 # serializeJSONProperty num ind' x @ after)
              = CHR '':'' # CHR 0x20 # serializeJSONProperty num ind' x @ after"
    by (simp add: skipWhitespace_Cons newline_facts)
  have v: "parseValue env m (serializeJSONProperty num ind' x @ after)
             = Some (rebuild x, after)"
    by (rule cons.prems(1) [of k]) (simp_all add: p m after_def newline_facts)
  have v': "parseValue env m ([CHR 0x20] @ serializeJSONProperty num ind' x @ after)
             = Some (rebuild x, after)"
    using parseValue_whitespace [of "[CHR 0x20]"] v by (simp add: newline_facts)
  have s2: "skipWhitespace after = CHR '','' # tail"
    unfolding after_def by (simp add: skipWhitespace_Cons newline_facts)
  have r: "parseMembers env m tail (defineProperty k (rebuild x) acc)
             = Some (foldl (\<lambda>acc (k, v). defineProperty k (rebuild v) acc)
                       (defineProperty k (rebuild x) acc) ms, rest)"
    unfolding tail_def by (rule cons.IH) (use cons.prems(1) ms in auto)
  have "parseMembers env (Suc m)
          ((CHR 0x0A # ind') @ quoteJSONString k @ '': ''
                @ serializeJSONProperty num ind' x @ after) acc
        = parseMembers env m tail (defineProperty k (rebuild x) acc)"
    using v' by (intro parseMembers_more [OF s0 c s1 _ s2]) simp
  moreover have "CHR 0x0A # ind' @ joinWith (CHR '','' # CHR 0x0A # ind')
                                (map (\<lambda>(k, v). quoteJSONString k @ '': ''
                                        @ serializeJSONProperty num ind' v) (p # ms))
              @ CHR 0x0A # ind @ CHR ''}'' # rest
        = (CHR 0x0A # ind') @ quoteJSONString k @ '': ''
                @ serializeJSONProperty num ind' x @ after"
    by (simp add: p qs after_def tail_def)
  moreover have "foldl (\<lambda>acc (k, v). defineProperty k (rebuild v) acc) acc (p # ms)
                   = foldl (\<lambda>acc (k, v). defineProperty k (rebuild v) acc)
                       (defineProperty k (rebuild x) acc) ms"
    by (simp add: p)
  ultimately show ?case unfolding n by (simp only: r)
qed

lemma joinWith_head:
  assumes "xs \<noteq> []" and "\<exists>c t. f (hd xs) = c # t \<and> opensValue c"
  shows "\<exists>c t. joinWith sep (map f xs) @ rest = c # t \<and> opensValue c"
proof -
  obtain x ys where xs: "xs = x # ys" using assms(1) by (cases xs) simp_all
  obtain c t where c: "f x = c # t" "opensValue c" using assms(2) by (auto simp add: xs)
  show ?thesis by (cases ys) (simp_all add: xs c)
qed

lemma parseValue_serialized:
  assumes "list_all (readsBack env) (numbers v)" and "list_all isWhitespace indent"
    and "fuelOf v \<le> n" and "rest = [] \<or> \<not> isNumberChar (hd rest)"
  shows "parseValue env n (serializeJSONProperty (numToString env) indent v @ rest)
           = Some (rebuild v, rest)"
  using assms
proof (induction v arbitrary: indent n rest)
  case JNull
  then obtain m where "n = Suc m" by (cases n) simp_all
  then show ?case using parseValue_literal(1) by simp
next
  case (JBool b)
  then obtain m where "n = Suc m" by (cases n) simp_all
  then show ?case using parseValue_literal(2,3) by (cases b) simp_all
next
  case (JNumber x)
  then obtain m where n: "n = Suc m" by (cases n) simp_all
  have "readsBack env x" using JNumber.prems(1) by simp
  then show ?case using parseValue_number [OF _ JNumber.prems(4)] by (simp add: n)
next
  case (JString s)
  then obtain m where "n = Suc m" by (cases n) simp_all
  then show ?case using parseValue_string by simp
next
  case (JArray xs)
  then obtain m where n: "n = Suc m" and m: "sum_list (map (\<lambda>v. Suc (fuelOf v)) xs) \<le> m"
    by (cases n) simp_all
  show ?case
  proof (cases "xs = []")
    case True
    then show ?thesis using parseValue_array_empty by (simp add: n)
  next
    case False
    define ind' where "ind' = indent @ ''  ''"
    have wi: "list_all isWhitespace ind'"
      using JArray.prems(2) by (simp add: ind'_def newline_facts)
    have nums: "\<forall>x\<in>set xs. list_all (readsBack env) (numbers x)"
      using JArray.prems(1) by (simp add: list_all_iff)
    have ih: "parseValue env k (serializeJSONProperty (numToString env) ind' x @ r)
                = Some (rebuild x, r)"
      if "x \<in> set xs" "fuelOf x \<le> k" "r = [] \<or> \<not> isNumberChar (hd r)" for x k r
      using JArray.IH [OF that(1) _ wi that(2,3)] nums that(1) by blast
    define body where "body = joinWith (CHR '','' # CHR 0x0A # ind')
                                (map (serializeJSONProperty (numToString env) ind') xs)
              @ CHR 0x0A # indent @ CHR '']'' # rest"
    have els: "parseElements env m (CHR 0x0A # ind' @ body) = Some (map rebuild xs, rest)"
      unfolding body_def
      by (rule parseElements_serialized [OF ih False JArray.prems(2) wi m])
    have "\<exists>c t. serializeJSONProperty (numToString env) ind' (hd xs) = c # t \<and> opensValue c"
      using serialized_head nums False by simp
    then obtain c t where ct: "body = c # t" and c: "opensValue c"
      unfolding body_def using joinWith_head [OF False] by blast
    have w: "list_all isWhitespace (CHR 0x0A # ind')" using wi newline_facts by simp
    have "parseValue env (Suc m) (CHR ''['' # (CHR 0x0A # ind') @ c # t)
            = Some (JArray (map rebuild xs), rest)"
      unfolding parseValue_array [OF c w] using els by (simp add: ct)
    moreover have "serializeJSONProperty (numToString env) indent (JArray xs) @ rest
                     = CHR ''['' # (CHR 0x0A # ind') @ c # t"
      unfolding ct [symmetric] body_def ind'_def using False by (simp add: nl_def)
    ultimately show ?thesis by (simp only: n rebuild.simps)
  qed
next
  case (JObject ms)
  then obtain m where n: "n = Suc m"
    and m: "sum_list (map (\<lambda>(k, v). Suc (fuelOf v)) ms) \<le> m"
    by (cases n) simp_all
  show ?case
  proof (cases "ms = []")
    case True
    then show ?thesis using parseValue_object_empty by (simp add: n)
  next
    case False
    define ind' where "ind' = indent @ ''  ''"
    have wi: "list_all isWhitespace ind'"
      using JObject.prems(2) by (simp add: ind'_def newline_facts)
    have nums: "\<forall>(k, x)\<in>set ms. list_all (readsBack env) (numbers x)"
      using JObject.prems(1) by (auto simp add: list_all_iff)
    have ih: "parseValue env j (serializeJSONProperty (numToString env) ind' x @ r)
                = Some (rebuild x, r)"
      if "(k, x) \<in> set ms" "fuelOf x \<le> j" "r = [] \<or> \<not> isNumberChar (hd r)" for k x j r
    proof -
      have "list_all (readsBack env) (numbers x)" using nums that(1) by blast
      then show ?thesis using JObject.IH [OF that(1) _ _ wi that(2,3)] by simp
    qed
    define body where "body = joinWith (CHR '','' # CHR 0x0A # ind')
                                (map (\<lambda>(k, v). quoteJSONString k @ '': ''
                                        @ serializeJSONProperty (numToString env) ind' v) ms)
              @ CHR 0x0A # indent @ CHR ''}'' # rest"
    have mem: "parseMembers env m (CHR 0x0A # ind' @ body) []
                 = Some (foldl (\<lambda>acc (k, v). defineProperty k (rebuild v) acc) [] ms, rest)"
      unfolding body_def
      by (rule parseMembers_serialized [OF ih False JObject.prems(2) wi m])
    have "\<exists>c t. (\<lambda>(k, v). quoteJSONString k @ '': ''
                    @ serializeJSONProperty (numToString env) ind' v) (hd ms) = c # t
                 \<and> opensValue c"
      by (cases "hd ms")
         (simp add: quoteJSONString_def opensValue_def quoteMark_def isWhitespace_def)
    then obtain c t where ct: "body = c # t" and c: "opensValue c"
      unfolding body_def using joinWith_head [OF False] by blast
    have w: "list_all isWhitespace (CHR 0x0A # ind')" using wi newline_facts by simp
    have "parseValue env (Suc m) (CHR ''{'' # (CHR 0x0A # ind') @ c # t)
            = Some (JObject (foldl (\<lambda>acc (k, v). defineProperty k (rebuild v) acc) [] ms), rest)"
      unfolding parseValue_object [OF c w] using mem by (simp add: ct)
    moreover have "serializeJSONProperty (numToString env) indent (JObject ms) @ rest
                     = CHR ''{'' # (CHR 0x0A # ind') @ c # t"
      unfolding ct [symmetric] body_def ind'_def using False by (simp add: nl_def)
    ultimately show ?thesis by (simp only: n rebuild.simps)
  qed
qed

lemma fuel_of_list:
  assumes "sep \<noteq> []" and "\<forall>x\<in>set xs. g x \<le> length (f x)"
  shows "sum_list (map (\<lambda>x. Suc (g x)) xs) \<le> Suc (length (joinWith sep (map f xs)))"
  using assms(2)
proof (induction xs rule: induct_list012)
  case (3 x y zs)
  have l: "1 \<le> length sep" using assms(1) by (cases sep) simp_all
  have a: "g x \<le> length (f x)" using 3(3) by simp
  have ih: "sum_list (map (\<lambda>x. Suc (g x)) (y # zs))
              \<le> Suc (length (joinWith sep (map f (y # zs))))"
    using 3(2,3) by simp
  have e1: "length (joinWith sep (map f (x # y # zs)))
              = length (f x) + length sep + length (joinWith sep (map f (y # zs)))"
    by simp
  have e2: "sum_list (map (\<lambda>x. Suc (g x)) (x # y # zs))
              = Suc (g x) + sum_list (map (\<lambda>x. Suc (g x)) (y # zs))"
    by simp
  show ?case using l a ih unfolding e1 e2 by linarith
qed simp_all

lemma fuelOf_le_length:
  assumes "list_all (readsBack env) (numbers v)"
  shows "fuelOf v \<le> length (serializeJSONProperty (numToString env) indent v)"
  using assms
proof (induction v arbitrary: indent)
  case (JNumber x)
  then show ?case by (auto simp add: readsBack_def split: list.splits)
next
  case (JString s)
  then show ?case by (simp add: quoteJSONString_def)
next
  case (JArray xs)
  have "\<forall>x\<in>set xs. fuelOf x
          \<le> length (serializeJSONProperty (numToString env) (indent @ ''  '') x)"
    using JArray by (simp add: list_all_iff)
  then have "sum_list (map (\<lambda>x. Suc (fuelOf x)) xs)
          \<le> Suc (length (joinWith ('','' @ nl @ (indent @ ''  ''))
                 (map (serializeJSONProperty (numToString env) (indent @ ''  '')) xs)))"
    by (intro fuel_of_list) simp_all
  then show ?case by (simp add: nl_def)
next
  case (JObject ms)
  have "\<forall>p\<in>set ms. fuelOf (snd p)
          \<le> length (quoteJSONString (fst p) @ '': ''
                 @ serializeJSONProperty (numToString env) (indent @ ''  '') (snd p))"
  proof
    fix p assume p: "p \<in> set ms"
    obtain k x where kx: "p = (k, x)" by (cases p)
    have "list_all (readsBack env) (numbers x)"
      using JObject.prems p by (auto simp add: list_all_iff kx)
    then have "fuelOf x \<le> length (serializeJSONProperty (numToString env) (indent @ ''  '') x)"
      using JObject.IH [of p x] p by (simp add: kx)
    then show "fuelOf (snd p)
          \<le> length (quoteJSONString (fst p) @ '': ''
                 @ serializeJSONProperty (numToString env) (indent @ ''  '') (snd p))"
      by (simp add: kx)
  qed
  then have "sum_list (map (\<lambda>p. Suc (fuelOf (snd p))) ms)
          \<le> Suc (length (joinWith ('','' @ nl @ (indent @ ''  ''))
                 (map (\<lambda>p. quoteJSONString (fst p) @ '': ''
                 @ serializeJSONProperty (numToString env) (indent @ ''  '') (snd p)) ms)))"
    by (intro fuel_of_list) simp_all
  then show ?case by (simp add: nl_def case_prod_unfold)
qed simp_all

lemma jsonParse_jsonStringify:
  assumes "list_all (readsBack env) (numbers v)"
  shows "jsonParse env (jsonStringify env v) = Some (rebuild v)"
proof -
  have f: "fuelOf v \<le> 2 * length (jsonStringify env v) + 2"
    using fuelOf_le_length [OF assms, of "[]"] by (simp add: jsonStringify_def)
  have "parseValue env (2 * length (jsonStringify env v) + 2)
          (serializeJSONProperty (numToString env) [] v @ [])
        = Some (rebuild v, [])"
    by (rule parseValue_serialized [OF assms _ f]) simp_all
  then show ?thesis by (simp add: jsonParse_def jsonStringify_def skipWhitespace_def)
qed

text \<open>
  The text of a small value, as \<open>JSON.stringify(value, null, 2)\<close> writes it.
\<close>

lemma jsonStringify_example:
  \<open>jsonStringify jsonEnv (JObject [(''a'', JArray [JNumber 2, JString ''x'']), (''b'', JObject [])])
     = ''{'' @ nl @ ''  "a": ['' @ nl @ ''    2,'' @ nl @ ''    "x"'' @ nl @ ''  ],'' @ nl
       @ ''  "b": {}'' @ nl @ ''}''\<close>
  by (simp add: jsonStringify_def jsonEnv_def exampleEnv_def exampleNumerals_def nl_def
        quoteJSONString_def quoteChar_def quoteMark_def backslash_def)

subsection \<open>Layouts and the envelope\<close>

lemma rebuild_roomValue: "rebuild (roomValue room) = roomValue room"
  by (simp add: roomValue_def defineProperty_def isArrayIndex_def isDigit_def)

lemma rebuild_pathValue: "rebuild (pathValue path) = pathValue path"
  by (simp add: pathValue_def defineProperty_def isArrayIndex_def isDigit_def)

lemma rebuild_layoutValue: "rebuild (layoutValue l) = layoutValue l"
  by (cases "rooms l"; cases "circulation l")
     (simp_all add: layoutValue_def defineProperty_def isArrayIndex_def isDigit_def
        rebuild_roomValue rebuild_pathValue)

lemma rebuild_envelope:
  "getMember ''layout'' (rebuild (envelopeValue d)) = Some (rebuild (layout d))"
  by (simp add: envelopeValue_def getMember_def defineProperty_def isArrayIndex_def isDigit_def)

lemma numbers_envelope:
  "numbers (envelopeValue d)
     = numbers (case metadata d of None \<Rightarrow> JObject [] | Some m \<Rightarrow> m) @ numbers (layout d)"
  by (simp add: envelopeValue_def)

text \<open>
  Claim C8: for every JSON-representable layout and metadata, parsing the string
  produced by \<open>exportToJSON(layout, metadata)\<close> and projecting the \<open>layout\<close>
  field yields a value deep-equal to the original layout.
  \<open>exportToJSON\<close> prints the envelope with \<open>JSON.stringify(exportData, null, 2)\<close>.
  A value is representable when its numbers print and read back (\<open>readsBack\<close>) and
  its objects are property lists of the language (\<open>rebuild\<close> leaves it as it is);
  every LayoutData is of this kind (\<open>rebuild_layoutValue\<close>). The \<open>layout\<close>
  property of the parsed text is then the original layout, whatever the metadata and
  the time stamp.
\<close>

theorem exportToJSON_round_trip:
  assumes "list_all (readsBack env) (numbers layoutData)"
    and "list_all (readsBack env) (numbers (case meta of None \<Rightarrow> JObject [] | Some m \<Rightarrow> m))"
    and "rebuild layoutData = layoutData"
  shows "Option.bind
           (jsonParse env
              (exportToJSON (\<lambda>d. jsonStringify env (envelopeValue d)) env layoutData meta))
           (getMember ''layout'')
         = Some layoutData"
proof -
  define d where "d = \<lparr>version = ''1.0'', exportedAt = isoNow env, metadata = meta,
                        layout = layoutData\<rparr>"
  have exported: "exportToJSON (\<lambda>d. jsonStringify env (envelopeValue d)) env layoutData meta
                = jsonStringify env (envelopeValue d)"
    by (simp add: exportToJSON_def d_def Let_def)
  have "list_all (readsBack env) (numbers (envelopeValue d))"
    using assms(1,2) by (simp add: numbers_envelope d_def)
  then have "jsonParse env (jsonStringify env (envelopeValue d))
               = Some (rebuild (envelopeValue d))"
    by (rule jsonParse_jsonStringify)
  then show ?thesis
    using rebuild_envelope [of d] assms(3) by (simp add: exported d_def)
qed

theorem exportToJSON_round_trip_witness:
  "Option.bind
     (jsonParse jsonEnv
        (exportToJSON (\<lambda>d. jsonStringify jsonEnv (envelopeValue d)) jsonEnv
           (layoutValue exampleLayout) None))
     (getMember ''layout'')
   = Some (layoutValue exampleLayout)"
proof -
  have n: "list_all (readsBack jsonEnv) (numbers (layoutValue exampleLayout))"
    by (simp add: layoutValue_def roomValue_def pathValue_def exampleLayout_def readsBack_def
          jsonEnv_def exampleNumerals_def isDigit_def isNumberChar_def)
  have m: "list_all (readsBack jsonEnv) (numbers (case None of None \<Rightarrow> JObject [] | Some m \<Rightarrow> m))"
    by simp
  show ?thesis
    by (rule exportToJSON_round_trip [OF n m rebuild_layoutValue])
qed

section \<open>File names of the batch export\<close>

lemma encode_extension:
  assumes "encode stringify env l info f = Inr (content, mimeType, extension)"
  shows "(toLowerCase f, extension) \<in>
           {(''dxf'', ''dxf''), (''svg'', ''svg''), (''pdf'', ''html''), (''json'', ''json''),
            (''csv'', ''csv'')}"
  using assms
  by (auto simp add: encode_def Let_def map_sum_def split: if_splits sum.splits)

lemma sanitizedProjectName_eq:
  "sanitizedProjectName info =
     (case name info of
        None \<Rightarrow> ''layout''
      | Some n \<Rightarrow> if n = [] then ''layout'' else map (\<lambda>c. if alnum c then c else CHR ''_'') n)"
  by (simp add: sanitizedProjectName_def orElse_def replaceNonAlnum_def split: option.splits)

lemma exportOne_filename:
  assumes inv: "\<And>f r. results f = Some r \<Longrightarrow> success r \<Longrightarrow>
            (\<exists>ext. filename r = Some (projectName @ ''_'' @ timestamp @ ''.'' @ ext)
               \<and> (toLowerCase f, ext) \<in>
                    {(''dxf'', ''dxf''), (''svg'', ''svg''), (''pdf'', ''html''),
                     (''json'', ''json''), (''csv'', ''csv'')})"
    and get: "exportOne stringify env l info timestamp projectName format results f = Some r"
    and ok: "success r"
  shows "\<exists>ext. filename r = Some (projectName @ ''_'' @ timestamp @ ''.'' @ ext)
               \<and> (toLowerCase f, ext) \<in>
                    {(''dxf'', ''dxf''), (''svg'', ''svg''), (''pdf'', ''html''),
                     (''json'', ''json''), (''csv'', ''csv'')}"
proof (cases "f = format \<and> format \<noteq> ''__proto__''")
  case False
  with get have "results f = Some r"
    by (auto simp add: exportOne_def Let_def split: if_splits)
  with inv ok show ?thesis by blast
next
  case True
  show ?thesis
  proof (cases "encode stringify env l info format")
    case (Inl e)
    with True get ok show ?thesis
      by (auto simp add: exportOne_def Let_def)
  next
    case (Inr t)
    obtain content mimeType extension where t: "t = (content, mimeType, extension)"
      by (cases t) auto
    from encode_extension [of stringify env l info format content mimeType extension] Inr t
    have "(toLowerCase format, extension) \<in>
           {(''dxf'', ''dxf''), (''svg'', ''svg''), (''pdf'', ''html''), (''json'', ''json''),
            (''csv'', ''csv'')}" by simp
    moreover from True get Inr t
    have "filename r = Some (projectName @ ''_'' @ timestamp @ ''.'' @ extension)"
      by (auto simp add: exportOne_def Let_def)
    ultimately show ?thesis using True by blast
  qed
qed

lemma fold_exportOne_filename:
  assumes "\<And>f r. results f = Some r \<Longrightarrow> success r \<Longrightarrow>
            (\<exists>ext. filename r = Some (projectName @ ''_'' @ timestamp @ ''.'' @ ext)
               \<and> (toLowerCase f, ext) \<in>
                    {(''dxf'', ''dxf''), (''svg'', ''svg''), (''pdf'', ''html''),
                     (''json'', ''json''), (''csv'', ''csv'')})"
    and "fold (exportOne stringify env l info timestamp projectName) formats results f = Some r"
    and "success r"
  shows "\<exists>ext. filename r = Some (projectName @ ''_'' @ timestamp @ ''.'' @ ext)
               \<and> (toLowerCase f, ext) \<in>
                    {(''dxf'', ''dxf''), (''svg'', ''svg''), (''pdf'', ''html''),
                     (''json'', ''json''), (''csv'', ''csv'')}"
  using assms
proof (induction formats arbitrary: results)
  case Nil
  then show ?case by simp
next
  case (Cons format formats)
  show ?case
  proof (rule Cons.IH [of "exportOne stringify env l info timestamp projectName format results"])
    fix f' r'
    assume "exportOne stringify env l info timestamp projectName format results f' = Some r'"
      and "success r'"
    then show "\<exists>ext. filename r' = Some (projectName @ ''_'' @ timestamp @ ''.'' @ ext)
               \<and> (toLowerCase f', ext) \<in>
                    {(''dxf'', ''dxf''), (''svg'', ''svg''), (''pdf'', ''html''),
                     (''json'', ''json''), (''csv'', ''csv'')}"
      using exportOne_filename
              [of results projectName timestamp stringify env l info format f' r']
            Cons.prems(1)
      by blast
  next
    show "fold (exportOne stringify env l info timestamp projectName) formats
            (exportOne stringify env l info timestamp projectName format results) f = Some r"
      using Cons.prems(2) by simp
  next
    show "success r" by (rule Cons.prems(3))
  qed
qed

lemmas export_eval_defs =
  exportMultipleFormats_def exportOne_def encode_def exportToJSON_def createDownloadBlob_def
  sanitizedProjectName_def orElse_def replaceNonAlnum_def alnum_def toLowerCase_def
  lowerChar_def char_of_eq_iff specSanitize_def exampleEnv_def errorMessage_def

text \<open>
  Claim C9: each file name of the batch exporter is
  \<open>sanitize(projectName) + "_" + YYYY-MM-DD + "." + extension\<close>, where \<open>sanitize\<close>
  removes every character outside \<open>[A-Za-z0-9_]\<close>.
  The code does not remove the characters: \<open>replace(/[^a-zA-Z0-9]/g, '_')\<close> puts an
  underscore in the place of each.
\<close>

theorem batch_filename_not_stripped:
  "\<exists>r. exportMultipleFormats (\<lambda>d. ''{}'') exampleEnv exampleLayout
          \<lparr>name = Some ''My Plan'', layoutName = None, metrics = None, compliance = None\<rparr>
          (Some [''json'']) ''json'' = Some r
       \<and> filename r = Some ''My_Plan_2024-03-05.json''
       \<and> filename r
           \<noteq> Some (specSanitize ''My Plan'' @ ''_'' @ take 10 (isoNow exampleEnv) @ ''.''
                    @ ''json'')"
  by (simp add: export_eval_defs Let_def)

text \<open>
  Claim C9 as amended: each file name of a successful entry of the batch exporter is
  \<open>P + "_" + YYYY-MM-DD + "." + extension\<close>, where \<open>P\<close> is the project name with
  every character outside \<open>[A-Za-z0-9]\<close> replaced by an underscore, or \<open>layout\<close>
  when the name is absent or empty, the date is the first ten characters of the ISO
  timestamp, and the extension is that of the format (\<open>html\<close> for \<open>pdf\<close>).
\<close>

theorem batch_filename:
  assumes "exportMultipleFormats stringify env l info formats f = Some r" and "success r"
  shows "\<exists>ext. filename r =
            Some ((case name info of
                     None \<Rightarrow> ''layout''
                   | Some n \<Rightarrow> if n = [] then ''layout''
                              else map (\<lambda>c. if alnum c then c else CHR ''_'') n)
                  @ ''_'' @ take 10 (isoNow env) @ ''.'' @ ext)
          \<and> (toLowerCase f, ext) \<in>
               {(''dxf'', ''dxf''), (''svg'', ''svg''), (''pdf'', ''html''), (''json'', ''json''),
                (''csv'', ''csv'')}"
proof -
  have "\<exists>ext. filename r
            = Some (sanitizedProjectName info @ ''_'' @ take 10 (isoNow env) @ ''.'' @ ext)
               \<and> (toLowerCase f, ext) \<in>
                    {(''dxf'', ''dxf''), (''svg'', ''svg''), (''pdf'', ''html''),
                     (''json'', ''json''), (''csv'', ''csv'')}"
  proof (rule fold_exportOne_filename
           [of Map.empty "sanitizedProjectName info" "take 10 (isoNow env)" stringify env l info
               _ f r])
    show "fold (exportOne stringify env l info (take 10 (isoNow env))
                  (sanitizedProjectName info))
            (case formats of None \<Rightarrow> [''svg'', ''dxf'', ''json''] | Some fs \<Rightarrow> fs)
            Map.empty f = Some r"
      using assms(1) by (simp add: exportMultipleFormats_def Let_def)
  qed (simp_all add: assms(2))
  then show ?thesis by (simp add: sanitizedProjectName_eq)
qed

theorem batch_filename_witness:
  "\<exists>r. exportMultipleFormats (\<lambda>d. ''{}'') exampleEnv exampleLayout
          \<lparr>name = Some ''Tower #2'', layoutName = None, metrics = None, compliance = None\<rparr>
          (Some [''PDF'', ''xyz'']) ''PDF'' = Some r
       \<and> success r
       \<and> filename r = Some ''Tower__2_2024-03-05.html''"
proof -
  let ?info = "\<lparr>name = Some ''Tower #2'', layoutName = None, metrics = None, compliance = None\<rparr>"
  have "\<exists>r. exportMultipleFormats (\<lambda>d. ''{}'') exampleEnv exampleLayout ?info
          (Some [''PDF'', ''xyz'']) ''PDF'' = Some r \<and> success r"
    by (simp add: export_eval_defs exportToPDF_def exportToSVG_def exampleLayout_def Let_def)
  then obtain r where r: "exportMultipleFormats (\<lambda>d. ''{}'') exampleEnv exampleLayout ?info
          (Some [''PDF'', ''xyz'']) ''PDF'' = Some r" and s: "success r" by blast
  from batch_filename [OF r s] r s show ?thesis
    by (auto simp add: alnum_def exampleEnv_def toLowerCase_def lowerChar_def char_of_eq_iff)
qed

end

